theory Spec2Isabelle
  imports Complex_Main "HOL-Library.Log_Nat"
begin

section \<open>Python primitives used by \<open>genetic.py\<close>\<close>

text \<open>
  The module is Python 2. Its integers are modelled as \<open>int\<close>, its floats as the
  real numbers they denote, and every exception the code can raise is a value of
  \<open>py_error\<close>.
\<close>

datatype py_error = IndexError | KeyError | ValueError | TypeError | ZeroDivisionError

subsection \<open>Floats\<close>

text \<open>
  A float is a double: an arithmetic operation on floats returns the exact result
  rounded to the nearest double, a tie going to the double with the even significand.
  \<open>double_round\<close> is that rounding, for results within the range of the finite
  doubles, with 53 bits of significand and the least exponent \<open>-1022\<close>, below which
  the doubles are equally spaced. A float literal such as \<open>0.0001\<close> is the rounding
  of the number written. Infinities and NaN are outside the model.
\<close>

definition pow2 :: "int \<Rightarrow> real" where
  "pow2 k = (if 0 \<le> k then 2 ^ nat k else 1 / 2 ^ nat (- k))"

definition round_half_even :: "real \<Rightarrow> int" where
  "round_half_even q =
     (let f = \<lfloor>q\<rfloor>; d = q - real_of_int f
      in if d < 1 / 2 then f else if 1 / 2 < d then f + 1 else if even f then f else f + 1)"

text \<open>The exponent \<open>e\<close> of a non-zero \<open>x\<close>: \<open>2 ^ e \<le> |x| < 2 ^ (e + 1)\<close>.\<close>

definition exponent_of :: "real \<Rightarrow> int" where
  "exponent_of x =
     (if 1 \<le> \<bar>x\<bar> then bitlen \<lfloor>\<bar>x\<bar>\<rfloor> - 1 else - bitlen (\<lceil>1 / \<bar>x\<bar>\<rceil> - 1))"

definition double_round :: "real \<Rightarrow> real" where
  "double_round x =
     (if x = 0 then 0
      else (let e = max (exponent_of x) (- 1022)
            in real_of_int (round_half_even (x / pow2 (e - 52))) * pow2 (e - 52)))"

text \<open>The default \<open>background_mutation=0.0001\<close> of \<open>Chromosome\<close>.\<close>

definition default_background_mutation :: real where
  "default_background_mutation = double_round (1 / 10000)"

text \<open>\<open>int(x)\<close> on a float truncates towards zero.\<close>

definition py_int :: "real \<Rightarrow> int" where
  "py_int r = (if 0 \<le> r then \<lfloor>r\<rfloor> else \<lceil>r\<rceil>)"

text \<open>
  Slice bounds are clipped into \<open>0..len\<close>, a negative bound counting from the end:
  \<open>xs[:p]\<close> is \<open>slice_to xs p\<close>, \<open>xs[p:]\<close> is \<open>slice_from xs p\<close> and
  \<open>xs[a:b]\<close> is \<open>list_slice xs a b\<close>.
\<close>

definition clip :: "nat \<Rightarrow> int \<Rightarrow> nat" where
  "clip n p = (if p < 0 then nat (max 0 (p + int n)) else min (nat p) n)"

definition slice_to :: "'a list \<Rightarrow> int \<Rightarrow> 'a list" where
  "slice_to xs p = take (clip (length xs) p) xs"

definition slice_from :: "'a list \<Rightarrow> int \<Rightarrow> 'a list" where
  "slice_from xs p = drop (clip (length xs) p) xs"

definition list_slice :: "'a list \<Rightarrow> int \<Rightarrow> int \<Rightarrow> 'a list" where
  "list_slice xs a b = take (clip (length xs) b - clip (length xs) a) (drop (clip (length xs) a) xs)"

text \<open>
  \<open>xs[i] = v\<close> and \<open>xs.pop(i)\<close> raise IndexError outside \<open>-len..len-1\<close>;
  \<open>xs.insert(i, v)\<close> never raises, it clips the position as a slice bound.
\<close>

definition list_setitem :: "'a list \<Rightarrow> int \<Rightarrow> 'a \<Rightarrow> py_error + 'a list" where
  "list_setitem xs i v =
     (let j = (if i < 0 then i + int (length xs) else i)
      in if 0 \<le> j \<and> j < int (length xs) then Inr (xs[nat j := v]) else Inl IndexError)"

definition list_pop :: "'a list \<Rightarrow> int \<Rightarrow> py_error + ('a \<times> 'a list)" where
  "list_pop xs i =
     (let j = (if i < 0 then i + int (length xs) else i)
      in if 0 \<le> j \<and> j < int (length xs)
         then Inr (xs ! nat j, take (nat j) xs @ drop (Suc (nat j)) xs)
         else Inl IndexError)"

definition list_insert :: "'a list \<Rightarrow> int \<Rightarrow> 'a \<Rightarrow> 'a list" where
  "list_insert xs i v = take (clip (length xs) i) xs @ v # drop (clip (length xs) i) xs"

section \<open>Chromosome objects and crossover\<close>

text \<open>
  \<open>crossover\<close> returns objects, and whether they are new ones matters. The store holds
  list objects and Chromosome objects, each addressed by its index; a Chromosome object
  holds references to its sequence and base lists. Allocation appends, so a new object's
  address is the old length of its store.
\<close>

record chromosome_obj =
  sequence_ref :: nat
  base_ref :: nat
  bg_mutation :: real

record 'a heap =
  lists :: "'a list list"
  chromosomes :: "chromosome_obj list"

definition lookup :: "'b list \<Rightarrow> nat \<Rightarrow> 'b option" where
  "lookup xs r = (if r < length xs then Some (xs ! r) else None)"

definition new_list :: "'a heap \<Rightarrow> 'a list \<Rightarrow> 'a heap \<times> nat" where
  "new_list h xs = (h\<lparr>lists := lists h @ [xs]\<rparr>, length (lists h))"

text \<open>\<open>Chromosome(sequence, base)\<close>: \<open>background_mutation\<close> takes its default 0.0001.\<close>

definition Chromosome_init :: "'a heap \<Rightarrow> nat \<Rightarrow> nat \<Rightarrow> 'a heap \<times> nat" where
  "Chromosome_init h s b =
     (h\<lparr>chromosomes := chromosomes h @
          [\<lparr>sequence_ref = s, base_ref = b, bg_mutation = default_background_mutation\<rparr>]\<rparr>,
      length (chromosomes h))"

definition sequence_of :: "'a heap \<Rightarrow> nat \<Rightarrow> 'a list option" where
  "sequence_of h c =
     (case lookup (chromosomes h) c of
        None \<Rightarrow> None
      | Some obj \<Rightarrow> lookup (lists h) (sequence_ref obj))"

text \<open>
  \<open>crossover(chromosome1, chromosome2, position)\<close>. The result is \<open>None\<close> only for a
  dangling reference, which Python cannot produce.
\<close>

definition crossover :: "'a heap \<Rightarrow> nat \<Rightarrow> nat \<Rightarrow> int \<Rightarrow> ('a heap \<times> nat \<times> nat) option" where
  "crossover h chromosome1 chromosome2 position =
     (case (lookup (chromosomes h) chromosome1, lookup (chromosomes h) chromosome2) of
        (Some c1, Some c2) \<Rightarrow>
          (case (lookup (lists h) (sequence_ref c1), lookup (lists h) (sequence_ref c2)) of
             (Some seq1, Some seq2) \<Rightarrow>
               if int (length seq1) > position \<and> int (length seq2) > position then
                 (let (h1, l1) = new_list h (slice_to seq1 position @ slice_from seq2 position);
                      (h2, new1) = Chromosome_init h1 l1 (base_ref c1);
                      (h3, l2) = new_list h2 (slice_to seq2 position @ slice_from seq1 position);
                      (h4, new2) = Chromosome_init h3 l2 (base_ref c2)
                  in Some (h4, new1, new2))
               else if int (length seq1) > position then
                 (let (h1, l1) = new_list h (slice_to seq1 position);
                      (h2, new1) = Chromosome_init h1 l1 (base_ref c1);
                      (h3, l2) = new_list h2 (seq2 @ slice_from seq1 position);
                      (h4, new2) = Chromosome_init h3 l2 (base_ref c2)
                  in Some (h4, new1, new2))
               else if int (length seq2) > position then
                 (let (h1, l1) = new_list h (seq1 @ slice_from seq2 position);
                      (h2, new1) = Chromosome_init h1 l1 (base_ref c1);
                      (h3, l2) = new_list h2 (slice_to seq2 position);
                      (h4, new2) = Chromosome_init h3 l2 (base_ref c2)
                  in Some (h4, new1, new2))
               else Some (h, chromosome1, chromosome2)
           | _ \<Rightarrow> None)
      | _ \<Rightarrow> None)"

text \<open>
  Aliasing between two stores: \<open>fresh_chromosome h h' c\<close> says that \<open>c\<close> is a
  chromosome of \<open>h'\<close> that did not exist in \<open>h\<close> and whose sequence is a list object
  that did not exist in \<open>h\<close>; \<open>extends h h'\<close> says that \<open>h'\<close> keeps every object of
  \<open>h\<close> as it was.
\<close>

definition fresh_chromosome :: "'a heap \<Rightarrow> 'a heap \<Rightarrow> nat \<Rightarrow> bool" where
  "fresh_chromosome h h' c =
     (length (chromosomes h) \<le> c \<and>
      (case lookup (chromosomes h') c of
         None \<Rightarrow> False
       | Some obj \<Rightarrow> length (lists h) \<le> sequence_ref obj \<and> sequence_ref obj < length (lists h')))"

definition extends :: "'a heap \<Rightarrow> 'a heap \<Rightarrow> bool" where
  "extends h h' =
     (take (length (lists h)) (lists h') = lists h \<and>
      take (length (chromosomes h)) (chromosomes h') = chromosomes h)"

text \<open>Two chromosomes \<open>[1, 2, 3]\<close> and \<open>[4, 5, 6, 7]\<close> over the base \<open>[1, 0]\<close>.\<close>

definition two_chromosomes :: "int heap" where
  "two_chromosomes =
     \<lparr>lists = [[1, 2, 3], [4, 5, 6, 7], [1, 0]],
      chromosomes = [\<lparr>sequence_ref = 0, base_ref = 2, bg_mutation = default_background_mutation\<rparr>,
                     \<lparr>sequence_ref = 1, base_ref = 2, bg_mutation = default_background_mutation\<rparr>]\<rparr>"

section \<open>Chromosome mutation operators\<close>

text \<open>
  \<open>rmutate\<close> and \<open>kmutate\<close> change \<open>self.sequence\<close> in place and touch no other
  object, so they are modelled on the chromosome's field values. An exception leaves the
  sequence as mutated so far: the result pairs the exception raised, if any, with the
  sequence at that moment.
\<close>

record 'a chromosome =
  sequence :: "'a list"
  base :: "'a list"
  background_mutation :: real

text \<open>\<open>[self.sequence.pop(pos) for i in range(n)]\<close>, the fragment in popping order.\<close>

fun pops :: "nat \<Rightarrow> int \<Rightarrow> 'a list \<Rightarrow> 'a list \<Rightarrow> py_error option \<times> 'a list \<times> 'a list" where
  "pops 0 pos fragment xs = (None, fragment, xs)"
| "pops (Suc n) pos fragment xs =
     (case list_pop xs pos of
        Inl e \<Rightarrow> (Some e, fragment, xs)
      | Inr (x, ys) \<Rightarrow> pops n pos (fragment @ [x]) ys)"

text \<open>\<open>for i in range(len(fragment)): self.sequence.insert(p + i, fragment[i])\<close>\<close>

fun insert_each :: "int \<Rightarrow> 'a list \<Rightarrow> 'a list \<Rightarrow> 'a list" where
  "insert_each p [] xs = xs"
| "insert_each p (b # bs) xs = insert_each (p + 1) bs (list_insert xs p b)"

text \<open>\<open>for base in fragment: self.sequence.insert(p, base)\<close>\<close>

fun insert_all_at :: "int \<Rightarrow> 'a list \<Rightarrow> 'a list \<Rightarrow> 'a list" where
  "insert_all_at p [] xs = xs"
| "insert_all_at p (b # bs) xs = insert_all_at p bs (list_insert xs p b)"

text \<open>
  \<open>kmutate(type, start, end, sequence, tpos)\<close>. The argument \<open>sequence\<close> is used as a
  symbol by \<open>'point'\<close> (\<open>new_base\<close>) and as \<open>list(sequence)\<close> by \<open>'insert'\<close>
  (\<open>bases\<close>). The source tests \<open>type\<close> in six separate \<open>if\<close>s, of which at most one
  holds.
\<close>

definition kmutate ::
  "'a chromosome \<Rightarrow> string \<Rightarrow> int \<Rightarrow> int \<Rightarrow> 'a \<Rightarrow> 'a list \<Rightarrow> int \<Rightarrow> py_error option \<times> 'a chromosome" where
  "kmutate self type start end new_base bases tpos =
     (if type = ''point'' then
        (case list_setitem (sequence self) start new_base of
           Inl e \<Rightarrow> (Some e, self)
         | Inr ys \<Rightarrow> (None, self\<lparr>sequence := ys\<rparr>))
      else if type = ''delete'' then
        (case list_pop (sequence self) start of
           Inl e \<Rightarrow> (Some e, self)
         | Inr (x, ys) \<Rightarrow> (None, self\<lparr>sequence := ys\<rparr>))
      else if type = ''insert'' then
        (None, self\<lparr>sequence := insert_all_at start bases (sequence self)\<rparr>)
      else if type = ''duplicate'' then
        (None, self\<lparr>sequence :=
           insert_each end (list_slice (sequence self) start (end + 1)) (sequence self)\<rparr>)
      else if type = ''invert'' then
        (None, self\<lparr>sequence :=
           insert_all_at start (list_slice (sequence self) start end) (sequence self)\<rparr>)
      else if type = ''translocate'' then
        (case pops (nat (end - start)) start [] (sequence self) of
           (Some e, fragment, ys) \<Rightarrow> (Some e, self\<lparr>sequence := ys\<rparr>)
         | (None, fragment, ys) \<Rightarrow> (None, self\<lparr>sequence := insert_each tpos fragment ys\<rparr>))
      else (None, self))"

text \<open>
  The random source is a stream \<open>rnd\<close> of natural numbers, the \<open>k\<close>-th call of the
  module \<open>random\<close> reading \<open>rnd k\<close>. \<open>randrange(a, b)\<close> raises ValueError on an
  empty range; \<open>randrange(n)\<close> is \<open>randrange(0, n)\<close> and \<open>randint(a, b)\<close> is
  \<open>randrange(a, b + 1)\<close>.
\<close>

definition randrange :: "(nat \<Rightarrow> nat) \<Rightarrow> nat \<Rightarrow> int \<Rightarrow> int \<Rightarrow> py_error + int" where
  "randrange rnd k a b = (if b \<le> a then Inl ValueError else Inr (a + int (rnd k) mod (b - a)))"

definition randint :: "(nat \<Rightarrow> nat) \<Rightarrow> nat \<Rightarrow> int \<Rightarrow> int \<Rightarrow> py_error + int" where
  "randint rnd k a b = randrange rnd k a (b + 1)"

text \<open>
  One pass of the body of the \<open>while\<close> loop of \<open>rmutate\<close>, from the sequence \<open>xs\<close>
  and \<open>k\<close> random numbers already drawn. \<open>len\<close> is the source's \<open>length\<close>.
\<close>

definition rmutate_edit ::
  "'a list \<Rightarrow> string \<Rightarrow> int \<Rightarrow> int \<Rightarrow> int \<Rightarrow> (nat \<Rightarrow> nat) \<Rightarrow> 'a list \<Rightarrow> nat
     \<Rightarrow> py_error option \<times> 'a list \<times> nat" where
  "rmutate_edit bs type start end len rnd xs k =
     (case randrange rnd k 0 (len - 1) of
        Inl e \<Rightarrow> (Some e, xs, k)
      | Inr r \<Rightarrow>
         (let position = start + r in
          case randrange rnd (k + 1) 0 (int (length bs)) of
            Inl e \<Rightarrow> (Some e, xs, k + 1)
          | Inr i \<Rightarrow>
             (let new_base = bs ! nat i in
              if type = ''point'' then
                (case list_setitem xs position new_base of
                   Inl e \<Rightarrow> (Some e, xs, k + 2)
                 | Inr ys \<Rightarrow> (None, ys, k + 2))
              else if type = ''delete'' then
                (case list_pop xs position of
                   Inl e \<Rightarrow> (Some e, xs, k + 2)
                 | Inr (x, ys) \<Rightarrow> (None, ys, k + 2))
              else if type = ''insert'' then
                (None, list_insert xs position new_base, k + 2)
              else if type = ''duplicate'' then
                (case randrange rnd (k + 2) (position + 1) end of
                   Inl e \<Rightarrow> (Some e, xs, k + 2)
                 | Inr end_pos \<Rightarrow>
                     (None, insert_each end_pos (list_slice xs position end_pos) xs, k + 3))
              else if type = ''invert'' then
                (case randrange rnd (k + 2) (position + 1) end of
                   Inl e \<Rightarrow> (Some e, xs, k + 2)
                 | Inr end_pos \<Rightarrow>
                     (case pops (nat (end_pos - position)) position [] xs of
                        (Some e, fragment, ys) \<Rightarrow> (Some e, ys, k + 3)
                      | (None, fragment, ys) \<Rightarrow>
                          (None, insert_all_at position (rev fragment) ys, k + 3)))
              else if type = ''translocate'' then
                (case randrange rnd (k + 2) (position + 1) end of
                   Inl e \<Rightarrow> (Some e, xs, k + 2)
                 | Inr end_pos \<Rightarrow>
                     (case pops (nat (end_pos - position)) position [] xs of
                        (Some e, fragment, ys) \<Rightarrow> (Some e, ys, k + 3)
                      | (None, fragment, ys) \<Rightarrow>
                          (case randint rnd (k + 3) 0 (int (length ys)) of
                             Inl e \<Rightarrow> (Some e, ys, k + 3)
                           | Inr insertion_point \<Rightarrow>
                               (None, insert_each insertion_point fragment ys, k + 4))))
              else (None, xs, k + 2))))"

text \<open>\<open>while mutation > 0: ...; mutation = mutation - 1\<close>\<close>

fun rmutate_loop ::
  "nat \<Rightarrow> 'a list \<Rightarrow> string \<Rightarrow> int \<Rightarrow> int \<Rightarrow> int \<Rightarrow> (nat \<Rightarrow> nat) \<Rightarrow> 'a list \<Rightarrow> nat
     \<Rightarrow> py_error option \<times> 'a list \<times> nat" where
  "rmutate_loop 0 bs type start end len rnd xs k = (None, xs, k)"
| "rmutate_loop (Suc mutation) bs type start end len rnd xs k =
     (case rmutate_edit bs type start end len rnd xs k of
        (Some e, ys, k') \<Rightarrow> (Some e, ys, k')
      | (None, ys, k') \<Rightarrow> rmutate_loop mutation bs type start end len rnd ys k')"

text \<open>
  The first three statements of \<open>rmutate\<close>: the region \<open>(start, end)\<close> that the loop
  works on, for a sequence of \<open>n\<close> symbols.
\<close>

definition region :: "nat \<Rightarrow> int \<Rightarrow> int \<Rightarrow> int \<times> int" where
  "region n start end =
     (let end1 = (if end > int n - 1 then int n - 1 else end);
          end2 = (if end1 = - 1 then int n - 1 else end1);
          start1 = (if start = end2 then 0 else start)
      in (start1, end2))"

text \<open>
  The number of passes of the loop: \<open>int((self.background_mutation + rate) * length)\<close>,
  a float addition, the conversion of the integer \<open>length\<close> to a float and a float
  multiplication.
\<close>

definition mutation_count :: "'a chromosome \<Rightarrow> real \<Rightarrow> int \<Rightarrow> int \<Rightarrow> nat" where
  "mutation_count self rate start end =
     (case region (length (sequence self)) start end of
        (start1, end2) \<Rightarrow>
          nat (py_int (double_round (double_round (background_mutation self + rate)
                                        * double_round (real_of_int (end2 - start1))))))"

definition rmutate ::
  "'a chromosome \<Rightarrow> string \<Rightarrow> real \<Rightarrow> int \<Rightarrow> int \<Rightarrow> (nat \<Rightarrow> nat) \<Rightarrow> py_error option \<times> 'a chromosome" where
  "rmutate self type rate start end rnd =
     (case region (length (sequence self)) start end of
        (start1, end2) \<Rightarrow>
          (case rmutate_loop (mutation_count self rate start end) (base self) type
                  start1 end2 (end2 - start1) rnd (sequence self) 0 of
             (e, xs, k) \<Rightarrow> (e, self\<lparr>sequence := xs\<rparr>)))"

text \<open>The chromosomes used as concrete inputs below.\<close>

definition ch5 :: "int chromosome" where
  "ch5 = \<lparr>sequence = [1, 2, 3, 4, 5], base = [1, 0], background_mutation = default_background_mutation\<rparr>"

definition zeros10 :: "int chromosome" where
  "zeros10 =
     \<lparr>sequence = [0, 0, 0, 0, 0, 0, 0, 0, 0, 0], base = [1, 0], background_mutation = default_background_mutation\<rparr>"

section \<open>Organism status\<close>

text \<open>
  A status value is \<open>None\<close>, a boolean, a number or a string; a status table is a
  dictionary from names to such values.
\<close>

datatype pyval = PyNone | PyBool bool | PyNum real | PyStr string

type_synonym status = "string \<rightharpoonup> pyval"

text \<open>
  \<open>float(value)\<close>: TypeError on \<open>None\<close>, on a number the double nearest to it (the
  number itself when it is a float already), and on a string the number it denotes or
  ValueError. How a string denotes a number is Python's business: \<open>parse\<close>, a
  parameter, says it.
\<close>

fun py_float :: "(string \<Rightarrow> real option) \<Rightarrow> pyval \<Rightarrow> py_error + real" where
  "py_float parse PyNone = Inl TypeError"
| "py_float parse (PyBool b) = Inr (if b then 1 else 0)"
| "py_float parse (PyNum r) = Inr (double_round r)"
| "py_float parse (PyStr s) = (case parse s of None \<Rightarrow> Inl ValueError | Some r \<Rightarrow> Inr r)"

text \<open>\<open>value == True\<close> and \<open>value == False\<close>: a boolean equals the numbers 1 and 0.\<close>

fun py_eq_bool :: "pyval \<Rightarrow> bool \<Rightarrow> bool" where
  "py_eq_bool (PyBool c) b = (c = b)"
| "py_eq_bool (PyNum r) b = (r = (if b then 1 else 0))"
| "py_eq_bool PyNone b = False"
| "py_eq_bool (PyStr s) b = False"

text \<open>
  \<open>x < v\<close> for a float \<open>x\<close> and a status value \<open>v\<close>, in Python 2's order of mixed
  types: \<open>None\<close> is below every number and every number is below every string.
\<close>

fun float_less :: "real \<Rightarrow> pyval \<Rightarrow> bool" where
  "float_less x (PyNum y) = (x < y)"
| "float_less x (PyBool b) = (x < (if b then 1 else 0))"
| "float_less x PyNone = False"
| "float_less x (PyStr s) = True"

text \<open>The float literal \<open>100.1\<close> that \<open>setStatus\<close> compares a vitality with.\<close>

definition vitality_limit :: real where
  "vitality_limit = double_round (1001 / 10)"

text \<open>The class attribute \<open>Organism.status\<close> as the class statement creates it.\<close>

definition default_status :: status where
  "default_status =
     [''alive'' \<mapsto> PyBool True, ''vitality'' \<mapsto> PyNum 100, ''age'' \<mapsto> PyNum 0,
      ''lifespan'' \<mapsto> PyNum 100, ''fitness'' \<mapsto> PyNum 100, ''death'' \<mapsto> PyNone]"

text \<open>
  The body of \<open>setStatus(variable, value)\<close> on the dictionary \<open>st\<close> that
  \<open>self.status\<close> denotes. The two tests of \<open>'alive'\<close> come first and are followed,
  as in the source, by the \<open>if\<close>/\<open>elif\<close>/\<open>else\<close> on \<open>'vitality'\<close> and \<open>'age'\<close>,
  whose \<open>else\<close> also takes \<open>'alive'\<close>. An exception can only come before the first
  assignment, so it leaves the dictionary as it was.
\<close>

definition setStatus_dict ::
  "(string \<Rightarrow> real option) \<Rightarrow> status \<Rightarrow> string \<Rightarrow> pyval \<Rightarrow> py_error + status" where
  "setStatus_dict parse st variable value =
     (let st1 = (if variable = ''alive'' \<and> py_eq_bool value True
                 then st(''alive'' \<mapsto> value) else st);
          st2 = (if variable = ''alive'' \<and> py_eq_bool value False
                 then st1(''alive'' \<mapsto> value, ''death'' \<mapsto> PyStr ''death03'') else st1)
      in if variable = ''vitality'' then
           (case py_float parse value of
              Inl e \<Rightarrow> Inl e
            | Inr v \<Rightarrow>
               (let st3 = (if v > vitality_limit then st2(''vitality'' \<mapsto> PyNum 100) else st2);
                    st4 = (if v > 0 \<and> v < vitality_limit then st3(''vitality'' \<mapsto> PyNum v) else st3);
                    st5 = (if v = 0 \<or> v < 0
                           then st4(''vitality'' \<mapsto> PyNum 0, ''alive'' \<mapsto> PyBool False,
                                    ''death'' \<mapsto> PyStr ''death01'')
                           else st4)
                in Inr st5))
         else if variable = ''age'' then
           (case py_float parse value of
              Inl e \<Rightarrow> Inl e
            | Inr v \<Rightarrow>
               (case st2 ''lifespan'' of
                  None \<Rightarrow> Inl KeyError
                | Some lifespan \<Rightarrow>
                    if float_less v lifespan then Inr (st2(''age'' \<mapsto> PyNum v))
                    else Inr (st2(''age'' \<mapsto> lifespan, ''alive'' \<mapsto> PyBool False,
                                  ''death'' \<mapsto> PyStr ''death02''))))
         else Inr (st2(variable \<mapsto> value)))"

subsection \<open>Organism objects and the class attribute\<close>

text \<open>
  An Organism instance holds what \<open>__init__\<close> assigns, \<open>genome\<close> and \<open>gender\<close>.
  The field \<open>own_status\<close> is the entry \<open>status\<close> of the instance's own dictionary,
  \<open>None\<close> when the instance has none: Python resolves \<open>self.status\<close> in the instance
  first and in the class after it. The world holds the class attribute
  \<open>Organism.status\<close> and the instances, each addressed by its index.
\<close>

record organism =
  genome :: "int chromosome list"
  gender :: pyval
  own_status :: "status option"

record world =
  Organism_status :: status
  instances :: "organism list"

definition initial_world :: world where
  "initial_world = \<lparr>Organism_status = default_status, instances = []\<rparr>"

datatype genome_arg = Default | Dummy | Given "int chromosome list"

text \<open>\<open>Organism(genome, gender)\<close>: a new instance; \<open>__init__\<close> assigns no \<open>status\<close>.\<close>

definition Organism_init :: "world \<Rightarrow> genome_arg \<Rightarrow> pyval \<Rightarrow> world \<times> nat" where
  "Organism_init w g gen =
     (w\<lparr>instances := instances w @
          [\<lparr>genome = (case g of
                        Default \<Rightarrow> [\<lparr>sequence = replicate 1000 0, base = [1, 0],
                                      background_mutation = default_background_mutation\<rparr>]
                      | Dummy \<Rightarrow> [\<lparr>sequence = [0], base = [1, 0],
                                    background_mutation = default_background_mutation\<rparr>]
                      | Given cs \<Rightarrow> cs),
            gender = gen, own_status = None\<rparr>]\<rparr>,
      length (instances w))"

text \<open>The dictionary that \<open>self.status\<close> denotes.\<close>

definition status_of :: "world \<Rightarrow> nat \<Rightarrow> status option" where
  "status_of w self =
     (case lookup (instances w) self of
        None \<Rightarrow> None
      | Some obj \<Rightarrow> (case own_status obj of None \<Rightarrow> Some (Organism_status w) | Some st \<Rightarrow> Some st))"

text \<open>
  \<open>setStatus\<close> writes into the dictionary that \<open>self.status\<close> denotes, where it lives.
  \<open>None\<close> stands for a dangling \<open>self\<close>, which Python cannot produce.
\<close>

definition setStatus ::
  "(string \<Rightarrow> real option) \<Rightarrow> world \<Rightarrow> nat \<Rightarrow> string \<Rightarrow> pyval \<Rightarrow> (py_error + world) option" where
  "setStatus parse w self variable value =
     (case lookup (instances w) self of
        None \<Rightarrow> None
      | Some obj \<Rightarrow>
          (case own_status obj of
             None \<Rightarrow>
               (case setStatus_dict parse (Organism_status w) variable value of
                  Inl e \<Rightarrow> Some (Inl e)
                | Inr st \<Rightarrow> Some (Inr (w\<lparr>Organism_status := st\<rparr>)))
           | Some own \<Rightarrow>
               (case setStatus_dict parse own variable value of
                  Inl e \<Rightarrow> Some (Inl e)
                | Inr st \<Rightarrow>
                    Some (Inr (w\<lparr>instances := (instances w)[self := obj\<lparr>own_status := Some st\<rparr>]\<rparr>)))))"

text \<open>\<open>getStatus(variable)\<close>: the entry, or KeyError.\<close>

definition getStatus :: "world \<Rightarrow> nat \<Rightarrow> string \<Rightarrow> (py_error + pyval) option" where
  "getStatus w self variable =
     (case status_of w self of
        None \<Rightarrow> None
      | Some st \<Rightarrow> (case st variable of None \<Rightarrow> Some (Inl KeyError) | Some v \<Rightarrow> Some (Inr v)))"

text \<open>
  \<open>clone()\<close> is \<open>deepcopy(self)\<close>: a new instance with a copy of the instance's own
  dictionary. The class and its attributes are not copied.
\<close>

definition clone :: "world \<Rightarrow> nat \<Rightarrow> (world \<times> nat) option" where
  "clone w self =
     (case lookup (instances w) self of
        None \<Rightarrow> None
      | Some obj \<Rightarrow> Some (w\<lparr>instances := instances w @ [obj]\<rparr>, length (instances w)))"

text \<open>The worlds that the constructor, \<open>clone\<close> and \<open>setStatus\<close> lead to.\<close>

inductive reachable :: "(string \<Rightarrow> real option) \<Rightarrow> world \<Rightarrow> bool" for parse where
  start: "reachable parse initial_world"
| init: "reachable parse w \<Longrightarrow> reachable parse (fst (Organism_init w g gen))"
| cloned: "reachable parse w \<Longrightarrow> clone w self = Some (w', c) \<Longrightarrow> reachable parse w'"
| set: "reachable parse w \<Longrightarrow> setStatus parse w self variable value = Some (Inr w')
          \<Longrightarrow> reachable parse w'"





text \<open>A world of two organisms, and that world after \<open>setStatus('alive', False)\<close>.\<close>

definition two_organisms :: world where
  "two_organisms =
     fst (Organism_init (fst (Organism_init initial_world Dummy PyNone)) Dummy PyNone)"


section \<open>Population\<close>

text \<open>
  \<open>Organism.fitness\<close>, the sample implementation: the proportion of ones in the genome,
  \<open>float(one_count) / float(length_of_genome)\<close>. The division raises on a genome
  without symbols.
\<close>

definition fitness :: "organism \<Rightarrow> py_error + real" where
  "fitness self =
     (let one_count = sum_list (map (\<lambda>chromosome. sum_list (sequence chromosome)) (genome self));
          length_of_genome = sum_list (map (\<lambda>chromosome. length (sequence chromosome)) (genome self))
      in if length_of_genome = 0 then Inl ZeroDivisionError
         else Inr (double_round (double_round (real_of_int one_count)
                                   / double_round (real length_of_genome))))"

text \<open>A list comprehension whose element expression may raise: the first exception wins.\<close>

fun map_err :: "('a \<Rightarrow> py_error + 'b) \<Rightarrow> 'a list \<Rightarrow> py_error + 'b list" where
  "map_err f [] = Inr []"
| "map_err f (x # xs) =
     (case f x of
        Inl e \<Rightarrow> Inl e
      | Inr y \<Rightarrow> (case map_err f xs of Inl e \<Rightarrow> Inl e | Inr ys \<Rightarrow> Inr (y # ys)))"

text \<open>\<open>sum(fs)\<close> on floats: the additions are made from the left, each one rounded.\<close>

definition float_sum :: "real list \<Rightarrow> real" where
  "float_sum fs = foldl (\<lambda>s f. double_round (s + f)) 0 fs"

text \<open>\<open>xs[random.randint(0, size - 1)]\<close> with \<open>size = len(xs)\<close>, as the \<open>k\<close>-th draw.\<close>

definition pick :: "(nat \<Rightarrow> nat) \<Rightarrow> 'a list \<Rightarrow> nat \<Rightarrow> py_error + 'a" where
  "pick rnd xs k =
     (case randint rnd k 0 (int (length xs) - 1) of
        Inl e \<Rightarrow> Inl e
      | Inr i \<Rightarrow> Inr (xs ! nat i))"

text \<open>
  \<open>Population.prepopulation_control\<close>, returning the new \<open>self.agents\<close>. The fitness
  function is the organisms' method \<open>fitness\<close>, which callers may replace, so it is a
  parameter \<open>fit\<close>. The two tests on \<open>len(temp)\<close> are separate \<open>if\<close>s, one after the
  other.
\<close>

definition prepopulation_control ::
  "('o \<Rightarrow> py_error + real) \<Rightarrow> 'o list \<Rightarrow> (nat \<Rightarrow> nat) \<Rightarrow> py_error + 'o list" where
  "prepopulation_control fit agents rnd =
     (case map_err fit agents of
        Inl e \<Rightarrow> Inl e
      | Inr sfitness \<Rightarrow>
          if length sfitness = 0 then Inl ZeroDivisionError
          else
            (let threshold =
                   double_round (float_sum sfitness / double_round (real (length sfitness)));
                 temp = map fst (filter (\<lambda>(a, f). f > threshold) (zip agents sfitness))
             in case (if length temp > 2001 then map_err (pick rnd temp) [0..<2000]
                      else Inr agents) of
                  Inl e \<Rightarrow> Inl e
                | Inr agents1 \<Rightarrow> Inr (if length temp > 21 then temp else agents1)))"



text \<open>An organism of one chromosome with the given sequence.\<close>

definition organism_of :: "int list \<Rightarrow> organism" where
  "organism_of xs =
     \<lparr>genome = [\<lparr>sequence = xs, base = [1, 0], background_mutation = default_background_mutation\<rparr>],
      gender = PyNone, own_status = None\<rparr>"

section \<open>Rounding to a double\<close>

lemma round_half_even_of_int [simp]: "round_half_even (real_of_int m) = m"
  by (simp add: round_half_even_def)

lemma pow2_pos [simp]: "0 < pow2 k"
  by (simp add: pow2_def)

lemma bitlen_eqI: "2 ^ n \<le> m \<Longrightarrow> m < 2 ^ Suc n \<Longrightarrow> bitlen m = int n + 1"
proof (rule antisym)
  assume "m < 2 ^ Suc n"
  then show "bitlen m \<le> int n + 1"
    by (simp add: bitlen_le_iff_power nat_add_distrib)
next
  assume "2 ^ n \<le> m"
  then show "int n + 1 \<le> bitlen m"
    by (simp add: bitlen_ge_iff_power nat_add_distrib)
qed

lemma exponent_ofI:
  assumes lo: "pow2 e \<le> \<bar>x\<bar>" and hi: "\<bar>x\<bar> < pow2 (e + 1)"
  shows "exponent_of x = e"
proof (cases "1 \<le> \<bar>x\<bar>")
  case True
  have e: "0 \<le> e"
  proof (rule ccontr)
    assume "\<not> 0 \<le> e"
    then have "pow2 (e + 1) \<le> 1"
      by (cases "e + 1 = 0") (simp_all add: pow2_def field_simps)
    with hi True show False by simp
  qed
  define n where "n = nat e"
  from e have pe: "pow2 e = 2 ^ n" and pe1: "pow2 (e + 1) = 2 ^ Suc n"
    by (simp_all add: pow2_def n_def nat_add_distrib)
  from lo pe have "real_of_int (2 ^ n) \<le> \<bar>x\<bar>" by simp
  then have a: "2 ^ n \<le> \<lfloor>\<bar>x\<bar>\<rfloor>" by (simp only: le_floor_iff)
  have "real_of_int \<lfloor>\<bar>x\<bar>\<rfloor> \<le> \<bar>x\<bar>" by (rule of_int_floor_le)
  also from hi pe1 have "\<bar>x\<bar> < 2 ^ Suc n" by simp
  finally have "real_of_int \<lfloor>\<bar>x\<bar>\<rfloor> < real_of_int (2 ^ Suc n)" by simp
  then have b: "\<lfloor>\<bar>x\<bar>\<rfloor> < 2 ^ Suc n" by (simp only: of_int_less_iff)
  from bitlen_eqI [OF a b] True e show ?thesis
    by (simp add: exponent_of_def n_def)
next
  case False
  have x: "0 < \<bar>x\<bar>" using lo pow2_pos [of e] by linarith
  have e: "e < 0"
  proof (rule ccontr)
    assume "\<not> e < 0"
    then have "1 \<le> pow2 e" by (simp add: pow2_def)
    with lo False show False by simp
  qed
  define j where "j = nat (- e - 1)"
  from e have pe: "pow2 e = 1 / 2 ^ Suc j" and pe1: "pow2 (e + 1) = 1 / 2 ^ j"
    by (auto simp: pow2_def j_def nat_diff_distrib Suc_nat_eq_nat_zadd1 nat_add_distrib)
  from lo pe x have up: "1 / \<bar>x\<bar> \<le> 2 ^ Suc j"
    by (simp add: field_simps)
  from hi pe1 have "\<bar>x\<bar> < 1 / 2 ^ j" by simp
  then have "\<bar>x\<bar> * 2 ^ j < 1" by (simp add: pos_less_divide_eq)
  with x have low: "2 ^ j < 1 / \<bar>x\<bar>"
    by (simp add: pos_less_divide_eq mult.commute)
  from up have "1 / \<bar>x\<bar> \<le> real_of_int (2 ^ Suc j)" by simp
  then have c1: "\<lceil>1 / \<bar>x\<bar>\<rceil> \<le> 2 ^ Suc j" by (simp only: ceiling_le_iff)
  from low have "real_of_int (2 ^ j) < 1 / \<bar>x\<bar>" by simp
  then have c2: "2 ^ j < \<lceil>1 / \<bar>x\<bar>\<rceil>" by (simp only: less_ceiling_iff)
  from c1 c2 have "bitlen (\<lceil>1 / \<bar>x\<bar>\<rceil> - 1) = int j + 1"
    by (intro bitlen_eqI) simp_all
  with False e show ?thesis
    by (simp add: exponent_of_def j_def)
qed

text \<open>The rounding of a number whose exponent \<open>e\<close> is known.\<close>

lemma double_round_eval:
  assumes "pow2 e \<le> \<bar>x\<bar>" and "\<bar>x\<bar> < pow2 (e + 1)"
  shows "double_round x =
     real_of_int (round_half_even (x / pow2 (max e (- 1022) - 52))) * pow2 (max e (- 1022) - 52)"
proof -
  from assms(1) pow2_pos [of e] have "0 < \<bar>x\<bar>" by linarith
  then have "x \<noteq> 0" by simp
  with exponent_ofI [OF assms] show ?thesis
    by (simp add: double_round_def Let_def)
qed

text \<open>Every natural number below \<open>2 ^ 53\<close> is a double.\<close>

lemma double_round_of_nat:
  assumes "k < 2 ^ 53"
  shows "double_round (real k) = real k"
proof (cases "k = 0")
  case True
  then show ?thesis by (simp add: double_round_def)
next
  case False
  then have k: "0 < int k" by simp
  define e where "e = bitlen (int k) - 1"
  from bitlen_bounds [OF k] have b: "2 ^ nat e \<le> int k" "int k < 2 ^ nat (e + 1)"
    by (simp_all add: e_def)
  from k have "1 \<le> bitlen (int k)"
    using bitlen_ge_iff_power [of 1 "int k"] by simp
  then have e0: "0 \<le> e" by (simp add: e_def)
  from assms have "int k < int (2 ^ 53)" by (simp only: of_nat_less_iff)
  then have k53: "int k < 2 ^ 53" by simp
  have e52: "e \<le> 52"
  proof -
    from b(1) k53 have "(2::int) ^ nat e < 2 ^ 53" by linarith
    then have "nat e < 53"
      using power_strict_increasing_iff [of "2::int" "nat e" 53] by simp
    then show ?thesis by simp
  qed
  from b(1) have "real_of_int (2 ^ nat e) \<le> real_of_int (int k)" by (simp only: of_int_le_iff)
  with e0 have lo: "pow2 e \<le> \<bar>real k\<bar>"
    by (simp add: pow2_def)
  from b(2) have "real_of_int (int k) < real_of_int (2 ^ nat (e + 1))" by (simp only: of_int_less_iff)
  with e0 have hi: "\<bar>real k\<bar> < pow2 (e + 1)"
    by (simp add: pow2_def)
  define j where "j = nat (52 - e)"
  from e0 e52 have m: "max e (- 1022) - 52 = - int j"
    by (simp add: j_def)
  have p: "pow2 (- int j) = 1 / 2 ^ j"
    by (cases "j = 0") (simp_all add: pow2_def)
  have "real k / (1 / 2 ^ j) = real_of_int (int k * 2 ^ j)"
    by simp
  then show ?thesis
    unfolding double_round_eval [OF lo hi] m p by (simp only: round_half_even_of_int) simp
qed

lemma double_round_numeral: "numeral n < (2::nat) ^ 53 \<Longrightarrow> double_round (numeral n) = numeral n"
  using double_round_of_nat [of "numeral n"] by simp

lemma double_round_0 [simp]: "double_round 0 = 0"
  by (simp add: double_round_def)

lemma double_round_1 [simp]: "double_round 1 = 1"
  using double_round_of_nat [of 1] by simp

text \<open>The doubles that the concrete inputs below go through.\<close>

lemma default_background_mutation_value:
  "default_background_mutation = 7378697629483821 / 2 ^ 66"
  unfolding default_background_mutation_def
  by (subst double_round_eval [where e = "- 14"]) (simp_all add: pow2_def round_half_even_def)

lemma double_round_half: "double_round (1 / 2) = 1 / 2"
  by (subst double_round_eval [where e = "- 1"]) (simp_all add: pow2_def round_half_even_def)

lemma rate_half_sum:
  "double_round (default_background_mutation + 1 / 2) = 4504500347295970 / 2 ^ 53"
  unfolding default_background_mutation_value
  by (subst double_round_eval [where e = "- 1"]) (simp_all add: pow2_def round_half_even_def)

lemma rate_half_times_9:
  "double_round (4504500347295970 / 2 ^ 53 * 9) = 5067562890707966 / 2 ^ 50"
  by (subst double_round_eval [where e = 2]) (simp_all add: pow2_def round_half_even_def)

lemma rate_half_times_5:
  "double_round (4504500347295970 / 2 ^ 53 * 5) = 5630625434119962 / 2 ^ 51"
  by (subst double_round_eval [where e = 1]) (simp_all add: pow2_def round_half_even_def)


section \<open>Crossover: splitting, round trip, and which objects are returned\<close>

lemma slice_to_nonneg: "0 \<le> p \<Longrightarrow> slice_to xs p = take (nat p) xs"
  by (simp add: slice_to_def clip_def min_def)

lemma slice_from_nonneg: "0 \<le> p \<Longrightarrow> slice_from xs p = drop (nat p) xs"
  by (simp add: slice_from_def clip_def min_def)

lemma crossover_both:
  assumes "sequence_of h c1 = Some s1" "sequence_of h c2 = Some s2"
    and "p < int (length s1)" "p < int (length s2)"
  shows "\<exists>h'. crossover h c1 c2 p = Some (h', length (chromosomes h), Suc (length (chromosomes h)))
     \<and> sequence_of h' (length (chromosomes h)) = Some (slice_to s1 p @ slice_from s2 p)
     \<and> sequence_of h' (Suc (length (chromosomes h))) = Some (slice_to s2 p @ slice_from s1 p)"
  using assms
  by (auto simp: crossover_def sequence_of_def new_list_def Chromosome_init_def lookup_def nth_append
      split: option.splits if_splits)

text \<open>
  C9. For two chromosomes and a cut position \<open>p\<close> with \<open>0 \<le> p\<close> below both lengths,
  \<open>crossover\<close> returns chromosomes whose sequences are the head of the first with the
  tail of the second, and the head of the second with the tail of the first; and
  \<open>crossover\<close> of these two at \<open>p\<close> returns chromosomes whose sequences are the two
  original sequences.
\<close>

theorem crossover_round_trip:
  assumes "sequence_of h c1 = Some s1" and "sequence_of h c2 = Some s2"
    and "0 \<le> p" and "p < int (length s1)" and "p < int (length s2)"
  shows "\<exists>h' n1 n2. crossover h c1 c2 p = Some (h', n1, n2)
     \<and> sequence_of h' n1 = Some (take (nat p) s1 @ drop (nat p) s2)
     \<and> sequence_of h' n2 = Some (take (nat p) s2 @ drop (nat p) s1)
     \<and> (\<exists>h'' m1 m2. crossover h' n1 n2 p = Some (h'', m1, m2)
          \<and> sequence_of h'' m1 = Some s1 \<and> sequence_of h'' m2 = Some s2)"
proof -
  let ?a = "take (nat p) s1 @ drop (nat p) s2"
  let ?b = "take (nat p) s2 @ drop (nat p) s1"
  from crossover_both [OF assms(1,2,4,5)] assms(3)
  obtain h' where h': "crossover h c1 c2 p = Some (h', length (chromosomes h), Suc (length (chromosomes h)))"
    "sequence_of h' (length (chromosomes h)) = Some ?a"
    "sequence_of h' (Suc (length (chromosomes h))) = Some ?b"
    by (auto simp: slice_to_nonneg slice_from_nonneg)
  have la: "p < int (length ?a)" and lb: "p < int (length ?b)"
    using assms(3-5) by auto
  have ra: "slice_to ?a p @ slice_from ?b p = s1"
    and rb: "slice_to ?b p @ slice_from ?a p = s2"
    using assms(3-5) by (simp_all add: slice_to_nonneg slice_from_nonneg min_def drop_take)
  from crossover_both [OF h'(2,3) la lb]
  obtain h'' where "crossover h' (length (chromosomes h)) (Suc (length (chromosomes h))) p
       = Some (h'', length (chromosomes h'), Suc (length (chromosomes h')))"
    "sequence_of h'' (length (chromosomes h')) = Some s1"
    "sequence_of h'' (Suc (length (chromosomes h'))) = Some s2"
    unfolding ra rb by blast
  with h' show ?thesis by blast
qed

theorem crossover_round_trip_witness:
  "\<exists>h' n1 n2. crossover two_chromosomes 0 1 1 = Some (h', n1, n2)
     \<and> sequence_of h' n1 = Some [1, 5, 6, 7]
     \<and> sequence_of h' n2 = Some [4, 2, 3]
     \<and> (\<exists>h'' m1 m2. crossover h' n1 n2 1 = Some (h'', m1, m2)
          \<and> sequence_of h'' m1 = Some [1, 2, 3] \<and> sequence_of h'' m2 = Some [4, 5, 6, 7])"
  using crossover_round_trip [of two_chromosomes 0 "[1, 2, 3]" 1 "[4, 5, 6, 7]" 1]
  by (simp add: two_chromosomes_def sequence_of_def lookup_def)

text \<open>
  C10, as stated, fails: at a cut position beyond both sequences \<open>crossover\<close> returns
  the two chromosome objects it was given, in an unchanged store, so the outputs are
  the inputs and not newly constructed objects.
\<close>

theorem crossover_beyond_both_counterexample:
  "crossover two_chromosomes 0 1 5 = Some (two_chromosomes, 0, 1)"
  by (simp add: crossover_def two_chromosomes_def lookup_def)

text \<open>
  C10, amended. When the cut position is at or beyond the length of exactly one
  sequence, that sequence goes whole into its output and the other is split at the cut.
  Whenever the cut position is below the length of at least one sequence, both outputs
  are new chromosome objects whose sequences are new list objects, and every object of
  the old store is kept as it was. When the cut position is at or beyond both lengths,
  the result is the two input objects themselves and the store is unchanged.
\<close>

theorem crossover_out_of_range:
  assumes "sequence_of h c1 = Some s1" and "sequence_of h c2 = Some s2"
  shows "(int (length s2) \<le> p \<and> p < int (length s1) \<longrightarrow>
           (\<exists>h' n1 n2. crossover h c1 c2 p = Some (h', n1, n2)
              \<and> sequence_of h' n1 = Some (take (nat p) s1)
              \<and> sequence_of h' n2 = Some (s2 @ drop (nat p) s1)
              \<and> fresh_chromosome h h' n1 \<and> fresh_chromosome h h' n2 \<and> extends h h'))
      \<and> (int (length s1) \<le> p \<and> p < int (length s2) \<longrightarrow>
           (\<exists>h' n1 n2. crossover h c1 c2 p = Some (h', n1, n2)
              \<and> sequence_of h' n1 = Some (s1 @ drop (nat p) s2)
              \<and> sequence_of h' n2 = Some (take (nat p) s2)
              \<and> fresh_chromosome h h' n1 \<and> fresh_chromosome h h' n2 \<and> extends h h'))
      \<and> (p < int (length s1) \<and> p < int (length s2) \<longrightarrow>
           (\<exists>h' n1 n2. crossover h c1 c2 p = Some (h', n1, n2)
              \<and> fresh_chromosome h h' n1 \<and> fresh_chromosome h h' n2 \<and> extends h h'))
      \<and> (int (length s1) \<le> p \<and> int (length s2) \<le> p \<longrightarrow>
           crossover h c1 c2 p = Some (h, c1, c2))"
  using assms
  by (auto simp: crossover_def sequence_of_def new_list_def Chromosome_init_def lookup_def nth_append
      slice_to_nonneg slice_from_nonneg fresh_chromosome_def extends_def
      split: option.splits if_splits)

lemma seq0: "sequence_of two_chromosomes 0 = Some [1, 2, 3]"
  and seq1: "sequence_of two_chromosomes 1 = Some [4, 5, 6, 7]"
  by (simp_all add: two_chromosomes_def sequence_of_def lookup_def)

theorem crossover_out_of_range_witness:
  "(\<exists>h' n1 n2. crossover two_chromosomes 1 0 3 = Some (h', n1, n2)
       \<and> sequence_of h' n1 = Some [4, 5, 6] \<and> sequence_of h' n2 = Some [1, 2, 3, 7]
       \<and> fresh_chromosome two_chromosomes h' n1 \<and> fresh_chromosome two_chromosomes h' n2
       \<and> extends two_chromosomes h')
   \<and> (\<exists>h' n1 n2. crossover two_chromosomes 0 1 3 = Some (h', n1, n2)
       \<and> sequence_of h' n1 = Some [1, 2, 3, 7] \<and> sequence_of h' n2 = Some [4, 5, 6]
       \<and> fresh_chromosome two_chromosomes h' n1 \<and> fresh_chromosome two_chromosomes h' n2
       \<and> extends two_chromosomes h')
   \<and> (\<exists>h' n1 n2. crossover two_chromosomes 0 1 1 = Some (h', n1, n2)
       \<and> fresh_chromosome two_chromosomes h' n1 \<and> fresh_chromosome two_chromosomes h' n2
       \<and> extends two_chromosomes h')
   \<and> crossover two_chromosomes 0 1 4 = Some (two_chromosomes, 0, 1)"
  using crossover_out_of_range [OF seq1 seq0, of 3]
    crossover_out_of_range [OF seq0 seq1, of 3]
    crossover_out_of_range [OF seq0 seq1, of 1]
    crossover_out_of_range [OF seq0 seq1, of 4]
  by simp


section \<open>Random mutation: the region when start equals end\<close>

lemma region_same: "0 \<le> e \<Longrightarrow> e \<le> int n - 1 \<Longrightarrow> region n e e = (0, e)"
  by (simp add: region_def)

lemma region_prefix: "0 \<le> e \<Longrightarrow> e \<le> int n - 1 \<Longrightarrow> region n 0 e = (0, e)"
  by (simp add: region_def)

lemma region_default: "0 < n \<Longrightarrow> region n 0 (- 1) = (0, int n - 1)"
  by (simp add: region_def)

lemma length_zeros10: "length (sequence zeros10) = 10"
  by (simp add: zeros10_def)

text \<open>The loop counters of the calls on ten symbols with rate 0.5 that are used below.\<close>

lemma passes_rate_half:
  "py_int (double_round (double_round (default_background_mutation + 1 / 2) * double_round 9)) = 4"
  "py_int (double_round (double_round (default_background_mutation + 1 / 2) * double_round 5)) = 2"
proof -
  have n: "double_round 9 = 9" "double_round 5 = 5"
    by (simp_all add: double_round_numeral)
  show "py_int (double_round (double_round (default_background_mutation + 1 / 2) * double_round 9)) = 4"
    unfolding rate_half_sum n rate_half_times_9 by (simp add: py_int_def)
  show "py_int (double_round (double_round (default_background_mutation + 1 / 2) * double_round 5)) = 2"
    unfolding rate_half_sum n rate_half_times_5 by (simp add: py_int_def)
qed

lemma mutation_count_zeros10:
  "mutation_count zeros10 (1 / 2) 0 (- 1) = 4"
  "mutation_count zeros10 (1 / 2) 5 5 = 2"
  "mutation_count zeros10 (1 / 2) 0 0 = 0"
proof -
  have z: "py_int 0 = 0" by (simp add: py_int_def)
  show "mutation_count zeros10 (1 / 2) 0 (- 1) = 4"
    by (simp add: mutation_count_def zeros10_def region_def passes_rate_half)
  show "mutation_count zeros10 (1 / 2) 5 5 = 2"
    by (simp add: mutation_count_def zeros10_def region_def passes_rate_half)
  show "mutation_count zeros10 (1 / 2) 0 0 = 0"
    by (simp add: mutation_count_def zeros10_def region_def z)
qed

text \<open>
  C6, as stated, fails. On ten symbols with rate 0.5, \<open>rmutate('insert', 0.5, 5, 5)\<close>
  makes 2 insertions, all within the first five positions, where the call without a
  hotspot, \<open>rmutate('insert', 0.5)\<close>, makes 4; and \<open>rmutate('insert', 0.5, 0, 0)\<close>
  performs no mutation at all.
\<close>

theorem rmutate_start_eq_end_counterexample:
  "rmutate zeros10 ''insert'' (1 / 2) 5 5 (\<lambda>k. 0)
     = (None, zeros10\<lparr>sequence := [1, 1, 0, 0, 0, 0, 0, 0, 0, 0, 0, 0]\<rparr>)
   \<and> rmutate zeros10 ''insert'' (1 / 2) 0 (- 1) (\<lambda>k. 0)
     = (None, zeros10\<lparr>sequence := [1, 1, 1, 1, 0, 0, 0, 0, 0, 0, 0, 0, 0, 0]\<rparr>)
   \<and> rmutate zeros10 ''insert'' (1 / 2) 5 5 (\<lambda>k. 0) \<noteq> rmutate zeros10 ''insert'' (1 / 2) 0 (- 1) (\<lambda>k. 0)
   \<and> rmutate zeros10 ''insert'' (1 / 2) 0 0 (\<lambda>k. 0) = (None, zeros10)"
proof -
  have a: "rmutate zeros10 ''insert'' (1 / 2) 5 5 (\<lambda>k. 0)
     = (None, zeros10\<lparr>sequence := [1, 1, 0, 0, 0, 0, 0, 0, 0, 0, 0, 0]\<rparr>)"
    unfolding rmutate_def mutation_count_zeros10
    by (simp add: zeros10_def region_def eval_nat_numeral
        rmutate_edit_def randrange_def list_insert_def clip_def)
  have b: "rmutate zeros10 ''insert'' (1 / 2) 0 (- 1) (\<lambda>k. 0)
     = (None, zeros10\<lparr>sequence := [1, 1, 1, 1, 0, 0, 0, 0, 0, 0, 0, 0, 0, 0]\<rparr>)"
    unfolding rmutate_def mutation_count_zeros10
    by (simp add: zeros10_def region_def eval_nat_numeral
        rmutate_edit_def randrange_def list_insert_def clip_def)
  have c: "rmutate zeros10 ''insert'' (1 / 2) 0 0 (\<lambda>k. 0) = (None, zeros10)"
    unfolding rmutate_def mutation_count_zeros10
    by (simp add: zeros10_def region_def)
  have "zeros10\<lparr>sequence := [1, 1, 0, 0, 0, 0, 0, 0, 0, 0, 0, 0]\<rparr>
      \<noteq> zeros10\<lparr>sequence := [1, 1, 1, 1, 0, 0, 0, 0, 0, 0, 0, 0, 0, 0]\<rparr>"
    by (simp add: zeros10_def)
  with a b c show ?thesis by simp
qed

text \<open>
  C6, amended. For every \<open>rmutate\<close> call with \<open>start = end = e\<close>, \<open>e\<close> an index of
  the sequence, \<open>start\<close> is reset to 0 and \<open>end\<close> is kept: the region is the prefix
  \<open>[0, e)\<close>, the loop is run with start 0, end \<open>e\<close>, length \<open>e\<close> and the counter
  \<open>int((background_mutation + rate) * e)\<close> of float arithmetic, and the call is the
  call \<open>rmutate(type, rate, 0, e)\<close>, with the same result and the same exception, if
  any. When \<open>e\<close> is the last index, it is the call without a hotspot.
\<close>

theorem rmutate_start_eq_end:
  assumes "0 \<le> e" and "e \<le> int (length (sequence self)) - 1"
  shows "region (length (sequence self)) e e = (0, e)
     \<and> rmutate self type rate e e rnd =
         (case rmutate_loop
                 (nat (py_int (double_round (double_round (background_mutation self + rate)
                                               * double_round (real_of_int e)))))
                 (base self) type 0 e e rnd (sequence self) 0 of
            (err, xs, k) \<Rightarrow> (err, self\<lparr>sequence := xs\<rparr>))
     \<and> rmutate self type rate e e rnd = rmutate self type rate 0 e rnd
     \<and> (e = int (length (sequence self)) - 1 \<longrightarrow>
          rmutate self type rate e e rnd = rmutate self type rate 0 (- 1) rnd)"
proof -
  let ?n = "length (sequence self)"
  have r1: "region ?n e e = (0, e)"
    using assms by (rule region_same)
  have r2: "region ?n 0 e = (0, e)"
    using assms by (rule region_prefix)
  have l: "rmutate self type rate e e rnd =
         (case rmutate_loop
                 (nat (py_int (double_round (double_round (background_mutation self + rate)
                                               * double_round (real_of_int e)))))
                 (base self) type 0 e e rnd (sequence self) 0 of
            (err, xs, k) \<Rightarrow> (err, self\<lparr>sequence := xs\<rparr>))"
    by (simp add: rmutate_def mutation_count_def r1)
  have m: "mutation_count self rate e e = mutation_count self rate 0 e"
    by (simp add: mutation_count_def r1 r2)
  have p: "rmutate self type rate e e rnd = rmutate self type rate 0 e rnd"
    by (simp add: rmutate_def m r1 r2)
  have d: "rmutate self type rate e e rnd = rmutate self type rate 0 (- 1) rnd"
    if last: "e = int ?n - 1"
  proof -
    from assms(1) last have "0 < ?n" by simp
    then have r3: "region ?n 0 (- 1) = (0, e)"
      using last by (simp add: region_default)
    have "mutation_count self rate e e = mutation_count self rate 0 (- 1)"
      by (simp add: mutation_count_def r1 r3)
    then show ?thesis by (simp add: rmutate_def r1 r3)
  qed
  from r1 l p d show ?thesis by blast
qed

theorem rmutate_start_eq_end_witness:
  "region 10 5 5 = (0, 5)
   \<and> rmutate zeros10 ''insert'' (1 / 2) 5 5 (\<lambda>k. 0)
       = (None, zeros10\<lparr>sequence := [1, 1, 0, 0, 0, 0, 0, 0, 0, 0, 0, 0]\<rparr>)
   \<and> rmutate zeros10 ''insert'' (1 / 2) 5 5 (\<lambda>k. 0) = rmutate zeros10 ''insert'' (1 / 2) 0 5 (\<lambda>k. 0)
   \<and> rmutate zeros10 ''insert'' (1 / 2) 9 9 (\<lambda>k. 0) = rmutate zeros10 ''insert'' (1 / 2) 0 (- 1) (\<lambda>k. 0)"
proof -
  have five: "(0::int) \<le> 5" "(5::int) \<le> int (length (sequence zeros10)) - 1"
    and nine: "(0::int) \<le> 9" "(9::int) \<le> int (length (sequence zeros10)) - 1"
    by (simp_all add: length_zeros10)
  have last: "(9::int) = int (length (sequence zeros10)) - 1"
    by (simp add: length_zeros10)
  note t5 = rmutate_start_eq_end [OF five, of "''insert''" "1 / 2" "\<lambda>k. 0"]
  from t5 [THEN conjunct1]
  have a: "region 10 5 5 = (0, 5)"
    by (simp add: length_zeros10)
  have bg: "background_mutation zeros10 = default_background_mutation"
    by (simp add: zeros10_def)
  have "rmutate zeros10 ''insert'' (1 / 2) 5 5 (\<lambda>k. 0)
       = (case rmutate_loop 2 (base zeros10) ''insert'' 0 5 5 (\<lambda>k. 0) (sequence zeros10) 0 of
            (err, xs, k) \<Rightarrow> (err, zeros10\<lparr>sequence := xs\<rparr>))"
    using t5 [THEN conjunct2, THEN conjunct1] by (simp add: bg passes_rate_half)
  then have b: "rmutate zeros10 ''insert'' (1 / 2) 5 5 (\<lambda>k. 0)
       = (None, zeros10\<lparr>sequence := [1, 1, 0, 0, 0, 0, 0, 0, 0, 0, 0, 0]\<rparr>)"
    by (simp add: zeros10_def eval_nat_numeral rmutate_edit_def randrange_def list_insert_def
        clip_def)
  from t5 [THEN conjunct2, THEN conjunct2, THEN conjunct1]
  have c: "rmutate zeros10 ''insert'' (1 / 2) 5 5 (\<lambda>k. 0) = rmutate zeros10 ''insert'' (1 / 2) 0 5 (\<lambda>k. 0)" .
  from rmutate_start_eq_end [OF nine, of "''insert''" "1 / 2" "\<lambda>k. 0"] last
  have d: "rmutate zeros10 ''insert'' (1 / 2) 9 9 (\<lambda>k. 0) = rmutate zeros10 ''insert'' (1 / 2) 0 (- 1) (\<lambda>k. 0)"
    by blast
  from a b c d show ?thesis by (intro conjI)
qed


section \<open>Random mutation: the number of edits\<close>

lemma length_list_insert: "length (list_insert xs p b) = Suc (length xs)"
  by (simp add: list_insert_def)

text \<open>
  Insertion never raises and makes the sequence longer: on a region of at least two
  positions and a non-empty base, \<open>rmutate('insert', ...)\<close> returns with as many more
  symbols as the loop has passes.
\<close>

lemma rmutate_edit_insert:
  assumes "1 < len" and "bs \<noteq> []"
  shows "\<exists>ys. rmutate_edit bs ''insert'' start end len rnd xs k = (None, ys, k + 2)
     \<and> length ys = Suc (length xs)"
  using assms by (simp add: rmutate_edit_def randrange_def Let_def length_list_insert)

lemma rmutate_loop_insert:
  assumes "1 < len" and "bs \<noteq> []"
  shows "\<exists>ys k'. rmutate_loop m bs ''insert'' start end len rnd xs k = (None, ys, k')
     \<and> length ys = length xs + m"
proof (induction m arbitrary: xs k)
  case 0
  show ?case by simp
next
  case (Suc m)
  from rmutate_edit_insert [OF assms, of start "end" rnd xs k]
  obtain ys where ys: "rmutate_edit bs ''insert'' start end len rnd xs k = (None, ys, k + 2)"
    "length ys = Suc (length xs)"
    by blast
  from Suc.IH [of ys "k + 2"]
  obtain zs k' where "rmutate_loop m bs ''insert'' start end len rnd ys (k + 2) = (None, zs, k')"
    "length zs = length ys + m"
    by blast
  with ys show ?case by simp
qed

lemma rmutate_insert_count:
  assumes "region (length (sequence self)) start end = (s, e)" and "1 < e - s"
    and "base self \<noteq> []"
  shows "\<exists>c. rmutate self ''insert'' rate start end rnd = (None, c)
     \<and> length (sequence c) = length (sequence self) + mutation_count self rate start end"
proof -
  from rmutate_loop_insert [OF assms(2,3), of "mutation_count self rate start end" s e rnd
      "sequence self" 0]
  obtain ys k' where "rmutate_loop (mutation_count self rate start end) (base self) ''insert''
      s e (e - s) rnd (sequence self) 0 = (None, ys, k')"
    "length ys = length (sequence self) + mutation_count self rate start end"
    by blast
  with assms(1) show ?thesis
    by (simp add: rmutate_def)
qed

text \<open>
  C7 at a failing input. On ten symbols, \<open>rmutate('delete', 0.5)\<close> is to make
  \<open>floor(0.5001 * 9) = 4\<close> deletions. Each position is drawn from the region of the
  sequence as it was at the start, while the sequence shrinks: when every draw is 7, the
  fourth \<open>pop(7)\<close> meets a sequence of 7 symbols and raises IndexError, after 3 edits.
\<close>

theorem rmutate_delete_raises:
  "mutation_count zeros10 (1 / 2) 0 (- 1) = 4
   \<and> rmutate zeros10 ''delete'' (1 / 2) 0 (- 1) (\<lambda>k. 7)
       = (Some IndexError, zeros10\<lparr>sequence := [0, 0, 0, 0, 0, 0, 0]\<rparr>)"
proof -
  have "rmutate zeros10 ''delete'' (1 / 2) 0 (- 1) (\<lambda>k. 7)
       = (Some IndexError, zeros10\<lparr>sequence := [0, 0, 0, 0, 0, 0, 0]\<rparr>)"
    unfolding rmutate_def mutation_count_zeros10
    by (simp add: zeros10_def region_def eval_nat_numeral rmutate_edit_def randrange_def
        list_pop_def)
  with mutation_count_zeros10(1) show ?thesis by simp
qed


section \<open>Directed mutation: invert\<close>

lemma length_insert_all_at: "length (insert_all_at p bs xs) = length xs + length bs"
  by (induction bs arbitrary: xs) (simp_all add: length_list_insert)

lemma kmutate_invert_length:
  "length (sequence (snd (kmutate self ''invert'' start end b bs t)))
     = length (sequence self) + length (list_slice (sequence self) start end)"
  by (simp add: kmutate_def length_insert_all_at)

text \<open>
  C8 at a failing input. \<open>kmutate('invert', 1, 3)\<close> on \<open>[1, 2, 3, 4, 5]\<close> inserts the
  reversed copy \<open>[3, 2]\<close> of the sub-range in front of the sub-range, which stays: the
  sequence grows from 5 to 7 symbols instead of becoming \<open>[1, 3, 2, 4, 5]\<close>.
\<close>

theorem kmutate_invert_grows:
  "kmutate ch5 ''invert'' 1 3 b bs t = (None, ch5\<lparr>sequence := [1, 3, 2, 2, 3, 4, 5]\<rparr>)"
  by (simp add: kmutate_def ch5_def list_slice_def clip_def list_insert_def)


section \<open>Status transitions of \<open>setStatus\<close>\<close>

lemma vitality_limit_value: "vitality_limit = 7043911292184166 / 2 ^ 46"
  unfolding vitality_limit_def
  by (subst double_round_eval [where e = 6]) (simp_all add: pow2_def round_half_even_def)

lemma vitality_limit_pos: "0 < vitality_limit"
  unfolding vitality_limit_value by simp

lemma literal_10005: "double_round (2001 / 20) = 7040392854975283 / 2 ^ 46"
  by (subst double_round_eval [where e = 6]) (simp_all add: pow2_def round_half_even_def)

lemma py_float_numeral:
  "numeral n < (2::nat) ^ 53 \<Longrightarrow> py_float parse (PyNum (numeral n)) = Inr (numeral n)"
  by (simp add: double_round_numeral)

lemma setStatus_dict_vitality:
  "py_float parse value = Inr v \<Longrightarrow>
   setStatus_dict parse st ''vitality'' value =
     Inr (if v > vitality_limit then st(''vitality'' \<mapsto> PyNum 100)
          else if 0 < v \<and> v < vitality_limit then st(''vitality'' \<mapsto> PyNum v)
          else if v \<le> 0 then st(''vitality'' \<mapsto> PyNum 0, ''alive'' \<mapsto> PyBool False,
                                 ''death'' \<mapsto> PyStr ''death01'')
          else st)"
  using vitality_limit_pos by (auto simp: setStatus_dict_def)

lemma setStatus_dict_age:
  "py_float parse value = Inr v \<Longrightarrow> st ''lifespan'' = Some lifespan \<Longrightarrow>
   setStatus_dict parse st ''age'' value =
     Inr (if float_less v lifespan then st(''age'' \<mapsto> PyNum v)
          else st(''age'' \<mapsto> lifespan, ''alive'' \<mapsto> PyBool False,
                  ''death'' \<mapsto> PyStr ''death02''))"
  by (simp add: setStatus_dict_def)

text \<open>
  C4, as stated, fails: the stored vitality is not clamped to \<open>[0, 100]\<close>.
  \<open>setStatus('vitality', 100.05)\<close> stores 100.05, the bound tested by the code being
  100.1.
\<close>

theorem vitality_above_100_counterexample:
  "setStatus_dict (\<lambda>s. None) default_status ''vitality'' (PyNum (2001 / 20))
     = Inr (default_status(''vitality'' \<mapsto> PyNum (double_round (2001 / 20))))
   \<and> 100 < double_round (2001 / 20)"
proof -
  have f: "py_float (\<lambda>s. None) (PyNum (2001 / 20)) = Inr (double_round (2001 / 20))"
    by simp
  have "0 < double_round (2001 / 20)" and "double_round (2001 / 20) < vitality_limit"
    and "100 < double_round (2001 / 20)"
    unfolding literal_10005 vitality_limit_value by simp_all
  then show ?thesis
    by (simp add: setStatus_dict_vitality [OF f])
qed

text \<open>
  C4, amended. For \<open>setStatus('vitality', v)\<close>: above 100.1 the stored vitality is 100;
  strictly between 0 and 100.1 it is \<open>v\<close> itself; and whenever \<open>v \<le> 0\<close> the status
  gets vitality 0, alive false and death cause \<open>death01\<close> (zero vitality), the other
  entries unchanged. For \<open>setStatus('age', v)\<close> with \<open>v\<close> at or above the lifespan, the
  status gets age equal to the lifespan, alive false and death cause \<open>death02\<close>
  (maximum age). \<open>v\<close> is the number \<open>float(value)\<close>.
\<close>

theorem setStatus_vitality_age:
  assumes "py_float parse value = Inr v"
  shows "(v > vitality_limit \<longrightarrow>
            setStatus_dict parse st ''vitality'' value = Inr (st(''vitality'' \<mapsto> PyNum 100)))
     \<and> (0 < v \<and> v < vitality_limit \<longrightarrow>
            setStatus_dict parse st ''vitality'' value = Inr (st(''vitality'' \<mapsto> PyNum v)))
     \<and> (v \<le> 0 \<longrightarrow>
            setStatus_dict parse st ''vitality'' value
              = Inr (st(''vitality'' \<mapsto> PyNum 0, ''alive'' \<mapsto> PyBool False,
                        ''death'' \<mapsto> PyStr ''death01'')))
     \<and> (st ''lifespan'' = Some (PyNum lifespan) \<and> lifespan \<le> v \<longrightarrow>
            setStatus_dict parse st ''age'' value
              = Inr (st(''age'' \<mapsto> PyNum lifespan, ''alive'' \<mapsto> PyBool False,
                        ''death'' \<mapsto> PyStr ''death02'')))"
  using assms vitality_limit_pos by (auto simp: setStatus_dict_vitality setStatus_dict_age)

theorem setStatus_vitality_age_witness:
  "setStatus_dict (\<lambda>s. None) default_status ''vitality'' (PyNum 150)
     = Inr (default_status(''vitality'' \<mapsto> PyNum 100))
   \<and> setStatus_dict (\<lambda>s. None) default_status ''vitality'' (PyNum 50)
     = Inr (default_status(''vitality'' \<mapsto> PyNum 50))
   \<and> setStatus_dict (\<lambda>s. None) default_status ''vitality'' (PyNum (- 3))
     = Inr (default_status(''vitality'' \<mapsto> PyNum 0, ''alive'' \<mapsto> PyBool False,
                           ''death'' \<mapsto> PyStr ''death01''))
   \<and> setStatus_dict (\<lambda>s. None) default_status ''age'' (PyNum 120)
     = Inr (default_status(''age'' \<mapsto> PyNum 100, ''alive'' \<mapsto> PyBool False,
                           ''death'' \<mapsto> PyStr ''death02''))"
proof -
  have l: "default_status ''lifespan'' = Some (PyNum 100)"
    by (simp add: default_status_def)
  have m3: "double_round (- 3) = - 3"
    by (subst double_round_eval [where e = 1]) (simp_all add: pow2_def round_half_even_def)
  have f150: "py_float (\<lambda>s. None) (PyNum 150) = Inr 150"
    and f50: "py_float (\<lambda>s. None) (PyNum 50) = Inr 50"
    and f120: "py_float (\<lambda>s. None) (PyNum 120) = Inr 120"
    and fm3: "py_float (\<lambda>s. None) (PyNum (- 3)) = Inr (- 3)"
    by (simp_all add: double_round_numeral m3)
  have g150: "vitality_limit < 150" and g50: "(0::real) < 50 \<and> 50 < vitality_limit"
    unfolding vitality_limit_value by simp_all
  from setStatus_vitality_age [OF f150, of default_status, THEN conjunct1] g150
  have c1: "setStatus_dict (\<lambda>s. None) default_status ''vitality'' (PyNum 150)
     = Inr (default_status(''vitality'' \<mapsto> PyNum 100))"
    by (rule mp)
  from setStatus_vitality_age [OF f50, of default_status, THEN conjunct2, THEN conjunct1] g50
  have c2: "setStatus_dict (\<lambda>s. None) default_status ''vitality'' (PyNum 50)
     = Inr (default_status(''vitality'' \<mapsto> PyNum 50))"
    by (rule mp)
  have "(- 3 :: real) \<le> 0" by simp
  with setStatus_vitality_age [OF fm3, of default_status, THEN conjunct2, THEN conjunct2,
      THEN conjunct1]
  have c3: "setStatus_dict (\<lambda>s. None) default_status ''vitality'' (PyNum (- 3))
     = Inr (default_status(''vitality'' \<mapsto> PyNum 0, ''alive'' \<mapsto> PyBool False,
                           ''death'' \<mapsto> PyStr ''death01''))"
    by (rule mp)
  from l have "default_status ''lifespan'' = Some (PyNum 100) \<and> (100::real) \<le> 120"
    by simp
  with setStatus_vitality_age [OF f120, of default_status 100, THEN conjunct2, THEN conjunct2,
      THEN conjunct2]
  have c4: "setStatus_dict (\<lambda>s. None) default_status ''age'' (PyNum 120)
     = Inr (default_status(''age'' \<mapsto> PyNum 100, ''alive'' \<mapsto> PyBool False,
                           ''death'' \<mapsto> PyStr ''death02''))"
    by (rule mp)
  from c1 c2 c3 c4 show ?thesis by (intro conjI)
qed

section \<open>The status table is the class attribute\<close>

lemma reachable_no_own_status:
  "reachable parse w \<Longrightarrow> \<forall>obj \<in> set (instances w). own_status obj = None"
proof (induction rule: reachable.induct)
  case start
  show ?case by (simp add: initial_world_def)
next
  case (init w g gen)
  then show ?case by (simp add: Organism_init_def)
next
  case (cloned w self w' c)
  then show ?case
    by (auto simp: clone_def lookup_def split: if_splits)
next
  case (set w self variable "value" w')
  then show ?case
    by (auto simp: setStatus_def lookup_def split: if_splits sum.splits)
qed

lemma status_of_class:
  assumes "reachable parse w" and "a < length (instances w)"
  shows "status_of w a = Some (Organism_status w)"
  using reachable_no_own_status [OF assms(1)] assms(2)
  by (simp add: status_of_def lookup_def)

lemma setStatus_class:
  assumes "reachable parse w" and "a < length (instances w)"
  shows "setStatus parse w a variable value =
     (case setStatus_dict parse (Organism_status w) variable value of
        Inl e \<Rightarrow> Some (Inl e)
      | Inr st \<Rightarrow> Some (Inr (w\<lparr>Organism_status := st\<rparr>)))"
  using reachable_no_own_status [OF assms(1)] assms(2)
  by (simp add: setStatus_def lookup_def)

lemma setStatus_dict_other:
  "variable \<noteq> ''vitality'' \<Longrightarrow> variable \<noteq> ''age'' \<Longrightarrow>
   \<exists>st'. setStatus_dict parse st variable value = Inr st' \<and> st' variable = Some value"
  by (simp add: setStatus_dict_def Let_def)

lemma setStatus_dict_alive_False:
  "py_eq_bool value False \<Longrightarrow>
   \<exists>st'. setStatus_dict parse st ''alive'' value = Inr st' \<and> st' ''death'' = Some (PyStr ''death03'')"
  by (simp add: setStatus_dict_def Let_def)

text \<open>
  What an organism \<open>b\<close> reads after \<open>setStatus\<close> on an organism \<open>a\<close>: the table that
  the body of \<open>setStatus\<close> made of the class attribute.
\<close>

lemma setStatus_shared:
  assumes r: "reachable parse w" and a: "a < length (instances w)" and b: "b < length (instances w)"
    and d: "setStatus_dict parse (Organism_status w) variable value = Inr st"
  shows "\<exists>w'. setStatus parse w a variable value = Some (Inr w')
     \<and> status_of w' a = Some st \<and> status_of w' b = Some st
     \<and> (\<forall>field v. st field = Some v \<longrightarrow> getStatus w' b field = Some (Inr v))"
proof -
  let ?w' = "w\<lparr>Organism_status := st\<rparr>"
  from d have s: "setStatus parse w a variable value = Some (Inr ?w')"
    by (simp add: setStatus_class [OF r a])
  from r s have r': "reachable parse ?w'" by (rule reachable.set)
  from a have "a < length (instances ?w')" by simp
  with r' have sa: "status_of ?w' a = Some (Organism_status ?w')" by (rule status_of_class)
  from b have "b < length (instances ?w')" by simp
  with r' have sb: "status_of ?w' b = Some (Organism_status ?w')" by (rule status_of_class)
  from sb have "\<forall>field v. st field = Some v \<longrightarrow> getStatus ?w' b field = Some (Inr v)"
    by (simp add: getStatus_def)
  with s sa sb show ?thesis by simp
qed

lemma setStatus_shared_vitality:
  assumes r: "reachable parse w" and a: "a < length (instances w)" and b: "b < length (instances w)"
    and f: "py_float parse value = Inr v"
  shows "(vitality_limit < v \<longrightarrow>
            (\<exists>w'. setStatus parse w a ''vitality'' value = Some (Inr w')
               \<and> getStatus w' b ''vitality'' = Some (Inr (PyNum 100))))
      \<and> (0 < v \<and> v < vitality_limit \<longrightarrow>
            (\<exists>w'. setStatus parse w a ''vitality'' value = Some (Inr w')
               \<and> getStatus w' b ''vitality'' = Some (Inr (PyNum v))))
      \<and> (v \<le> 0 \<longrightarrow>
            (\<exists>w'. setStatus parse w a ''vitality'' value = Some (Inr w')
               \<and> getStatus w' b ''vitality'' = Some (Inr (PyNum 0))
               \<and> getStatus w' b ''alive'' = Some (Inr (PyBool False))
               \<and> getStatus w' b ''death'' = Some (Inr (PyStr ''death01''))))"
proof (intro conjI impI)
  assume "vitality_limit < v"
  with f have "setStatus_dict parse (Organism_status w) ''vitality'' value
      = Inr ((Organism_status w)(''vitality'' \<mapsto> PyNum 100))"
    by (simp add: setStatus_dict_vitality)
  from setStatus_shared [OF r a b this]
  show "\<exists>w'. setStatus parse w a ''vitality'' value = Some (Inr w')
               \<and> getStatus w' b ''vitality'' = Some (Inr (PyNum 100))"
    by auto
next
  assume "0 < v \<and> v < vitality_limit"
  with f have "setStatus_dict parse (Organism_status w) ''vitality'' value
      = Inr ((Organism_status w)(''vitality'' \<mapsto> PyNum v))"
    by (simp add: setStatus_dict_vitality)
  from setStatus_shared [OF r a b this]
  show "\<exists>w'. setStatus parse w a ''vitality'' value = Some (Inr w')
               \<and> getStatus w' b ''vitality'' = Some (Inr (PyNum v))"
    by auto
next
  assume "v \<le> 0"
  with f vitality_limit_pos have "setStatus_dict parse (Organism_status w) ''vitality'' value
      = Inr ((Organism_status w)(''vitality'' \<mapsto> PyNum 0, ''alive'' \<mapsto> PyBool False,
                ''death'' \<mapsto> PyStr ''death01''))"
    by (simp add: setStatus_dict_vitality)
  from setStatus_shared [OF r a b this]
  show "\<exists>w'. setStatus parse w a ''vitality'' value = Some (Inr w')
               \<and> getStatus w' b ''vitality'' = Some (Inr (PyNum 0))
               \<and> getStatus w' b ''alive'' = Some (Inr (PyBool False))
               \<and> getStatus w' b ''death'' = Some (Inr (PyStr ''death01''))"
    by auto
qed

lemma setStatus_shared_age:
  assumes r: "reachable parse w" and a: "a < length (instances w)" and b: "b < length (instances w)"
    and f: "py_float parse value = Inr v" and l: "Organism_status w ''lifespan'' = Some lifespan"
  shows "(float_less v lifespan \<longrightarrow>
            (\<exists>w'. setStatus parse w a ''age'' value = Some (Inr w')
               \<and> getStatus w' b ''age'' = Some (Inr (PyNum v))))
      \<and> (\<not> float_less v lifespan \<longrightarrow>
            (\<exists>w'. setStatus parse w a ''age'' value = Some (Inr w')
               \<and> getStatus w' b ''age'' = Some (Inr lifespan)
               \<and> getStatus w' b ''alive'' = Some (Inr (PyBool False))
               \<and> getStatus w' b ''death'' = Some (Inr (PyStr ''death02''))))"
proof (intro conjI impI)
  assume "float_less v lifespan"
  with f l have "setStatus_dict parse (Organism_status w) ''age'' value
      = Inr ((Organism_status w)(''age'' \<mapsto> PyNum v))"
    by (simp add: setStatus_dict_age)
  from setStatus_shared [OF r a b this]
  show "\<exists>w'. setStatus parse w a ''age'' value = Some (Inr w')
               \<and> getStatus w' b ''age'' = Some (Inr (PyNum v))"
    by auto
next
  assume "\<not> float_less v lifespan"
  with f l have "setStatus_dict parse (Organism_status w) ''age'' value
      = Inr ((Organism_status w)(''age'' \<mapsto> lifespan, ''alive'' \<mapsto> PyBool False,
                ''death'' \<mapsto> PyStr ''death02''))"
    by (simp add: setStatus_dict_age)
  from setStatus_shared [OF r a b this]
  show "\<exists>w'. setStatus parse w a ''age'' value = Some (Inr w')
               \<and> getStatus w' b ''age'' = Some (Inr lifespan)
               \<and> getStatus w' b ''alive'' = Some (Inr (PyBool False))
               \<and> getStatus w' b ''death'' = Some (Inr (PyStr ''death02''))"
    by auto
qed

lemma setStatus_shared_other:
  assumes r: "reachable parse w" and a: "a < length (instances w)" and b: "b < length (instances w)"
  shows "(variable \<noteq> ''vitality'' \<and> variable \<noteq> ''age'' \<longrightarrow>
            (\<exists>w'. setStatus parse w a variable value = Some (Inr w')
               \<and> getStatus w' b variable = Some (Inr value)))
      \<and> (py_eq_bool value False \<longrightarrow>
            (\<exists>w'. setStatus parse w a ''alive'' value = Some (Inr w')
               \<and> getStatus w' b ''death'' = Some (Inr (PyStr ''death03''))))"
proof (intro conjI impI)
  assume "variable \<noteq> ''vitality'' \<and> variable \<noteq> ''age''"
  with setStatus_dict_other [of variable parse "Organism_status w" "value"]
  obtain st where st: "setStatus_dict parse (Organism_status w) variable value = Inr st"
    "st variable = Some value"
    by blast
  from setStatus_shared [OF r a b st(1)] st(2)
  show "\<exists>w'. setStatus parse w a variable value = Some (Inr w')
               \<and> getStatus w' b variable = Some (Inr value)"
    by auto
next
  assume "py_eq_bool value False"
  from setStatus_dict_alive_False [OF this, of parse "Organism_status w"]
  obtain st where st: "setStatus_dict parse (Organism_status w) ''alive'' value = Inr st"
    "st ''death'' = Some (PyStr ''death03'')"
    by blast
  from setStatus_shared [OF r a b st(1)] st(2)
  show "\<exists>w'. setStatus parse w a ''alive'' value = Some (Inr w')
               \<and> getStatus w' b ''death'' = Some (Inr (PyStr ''death03''))"
    by auto
qed

text \<open>
  C3. In every world reached by constructing organisms, cloning them and setting
  status, the status table of every organism is the one class attribute. For two
  distinct organisms \<open>a\<close> and \<open>b\<close>, whenever \<open>setStatus(variable, value)\<close> on \<open>a\<close>
  returns, the table that the call has made is the status table of \<open>a\<close> and of \<open>b\<close>, so
  that \<open>getStatus\<close> on \<open>b\<close> returns what the call on \<open>a\<close> has written: \<open>value\<close> for a
  variable other than \<open>'vitality'\<close> and \<open>'age'\<close>, with the death cause \<open>death03\<close> for
  \<open>'alive'\<close> set to false; for \<open>'vitality'\<close> 100 above 100.1, the number itself between 0
  and 100.1, and 0, dead, \<open>death01\<close> at or below 0; for \<open>'age'\<close> the number itself below
  the lifespan, and otherwise the lifespan, dead, \<open>death02\<close>. \<open>clone()\<close> of \<open>a\<close> returns
  a new organism \<open>c\<close> whose status table is that same class attribute, left as it was:
  a later \<open>setStatus\<close> on \<open>a\<close> shows in the status table and in \<open>getStatus\<close> of \<open>c\<close>.
\<close>

theorem status_shared_by_all_organisms:
  assumes "reachable parse w" and "a < length (instances w)" and "b < length (instances w)"
    and "a \<noteq> b"
  shows "(\<forall>st. setStatus_dict parse (Organism_status w) variable value = Inr st \<longrightarrow>
            (\<exists>w'. setStatus parse w a variable value = Some (Inr w')
               \<and> status_of w' a = Some st \<and> status_of w' b = Some st))
      \<and> (variable \<noteq> ''vitality'' \<and> variable \<noteq> ''age'' \<longrightarrow>
            (\<exists>w'. setStatus parse w a variable value = Some (Inr w')
               \<and> getStatus w' b variable = Some (Inr value)))
      \<and> (py_eq_bool value False \<longrightarrow>
            (\<exists>w'. setStatus parse w a ''alive'' value = Some (Inr w')
               \<and> getStatus w' b ''death'' = Some (Inr (PyStr ''death03''))))
      \<and> (\<forall>v. py_float parse value = Inr v \<longrightarrow>
            (vitality_limit < v \<longrightarrow>
               (\<exists>w'. setStatus parse w a ''vitality'' value = Some (Inr w')
                  \<and> getStatus w' b ''vitality'' = Some (Inr (PyNum 100))))
          \<and> (0 < v \<and> v < vitality_limit \<longrightarrow>
               (\<exists>w'. setStatus parse w a ''vitality'' value = Some (Inr w')
                  \<and> getStatus w' b ''vitality'' = Some (Inr (PyNum v))))
          \<and> (v \<le> 0 \<longrightarrow>
               (\<exists>w'. setStatus parse w a ''vitality'' value = Some (Inr w')
                  \<and> getStatus w' b ''vitality'' = Some (Inr (PyNum 0))
                  \<and> getStatus w' b ''alive'' = Some (Inr (PyBool False))
                  \<and> getStatus w' b ''death'' = Some (Inr (PyStr ''death01'')))))
      \<and> (\<forall>v lifespan. py_float parse value = Inr v
              \<and> Organism_status w ''lifespan'' = Some lifespan \<longrightarrow>
            (float_less v lifespan \<longrightarrow>
               (\<exists>w'. setStatus parse w a ''age'' value = Some (Inr w')
                  \<and> getStatus w' b ''age'' = Some (Inr (PyNum v))))
          \<and> (\<not> float_less v lifespan \<longrightarrow>
               (\<exists>w'. setStatus parse w a ''age'' value = Some (Inr w')
                  \<and> getStatus w' b ''age'' = Some (Inr lifespan)
                  \<and> getStatus w' b ''alive'' = Some (Inr (PyBool False))
                  \<and> getStatus w' b ''death'' = Some (Inr (PyStr ''death02'')))))
      \<and> (\<exists>w1 c. clone w a = Some (w1, c) \<and> c \<noteq> a \<and> c = length (instances w)
            \<and> Organism_status w1 = Organism_status w
            \<and> status_of w1 c = Some (Organism_status w1)
            \<and> (\<forall>st. setStatus_dict parse (Organism_status w1) variable value = Inr st \<longrightarrow>
                 (\<exists>w2. setStatus parse w1 a variable value = Some (Inr w2)
                     \<and> status_of w2 c = Some st))
            \<and> (variable \<noteq> ''vitality'' \<and> variable \<noteq> ''age'' \<longrightarrow>
                 (\<exists>w2. setStatus parse w1 a variable value = Some (Inr w2)
                     \<and> getStatus w2 c variable = Some (Inr value))))"
proof -
  note r = assms(1) and a = assms(2) and b = assms(3)
  let ?w1 = "w\<lparr>instances := instances w @ [instances w ! a]\<rparr>"
  let ?c = "length (instances w)"
  have c: "clone w a = Some (?w1, ?c)"
    using a by (simp add: clone_def lookup_def)
  with r have r1: "reachable parse ?w1" by (rule reachable.cloned)
  have a1: "a < length (instances ?w1)" and c1: "?c < length (instances ?w1)"
    using a by simp_all
  have ne: "?c \<noteq> a" using a by simp
  have cs: "Organism_status ?w1 = Organism_status w" by simp
  have sc: "status_of ?w1 ?c = Some (Organism_status ?w1)"
    using r1 c1 by (rule status_of_class)
  have p1: "\<forall>st. setStatus_dict parse (Organism_status w) variable value = Inr st \<longrightarrow>
            (\<exists>w'. setStatus parse w a variable value = Some (Inr w')
               \<and> status_of w' a = Some st \<and> status_of w' b = Some st)"
    using setStatus_shared [OF r a b] by blast
  have p2: "variable \<noteq> ''vitality'' \<and> variable \<noteq> ''age'' \<longrightarrow>
            (\<exists>w'. setStatus parse w a variable value = Some (Inr w')
               \<and> getStatus w' b variable = Some (Inr value))"
    and p3: "py_eq_bool value False \<longrightarrow>
            (\<exists>w'. setStatus parse w a ''alive'' value = Some (Inr w')
               \<and> getStatus w' b ''death'' = Some (Inr (PyStr ''death03'')))"
    using setStatus_shared_other [OF r a b, of variable "value"] by blast+
  have p4: "\<forall>v. py_float parse value = Inr v \<longrightarrow>
            (vitality_limit < v \<longrightarrow>
               (\<exists>w'. setStatus parse w a ''vitality'' value = Some (Inr w')
                  \<and> getStatus w' b ''vitality'' = Some (Inr (PyNum 100))))
          \<and> (0 < v \<and> v < vitality_limit \<longrightarrow>
               (\<exists>w'. setStatus parse w a ''vitality'' value = Some (Inr w')
                  \<and> getStatus w' b ''vitality'' = Some (Inr (PyNum v))))
          \<and> (v \<le> 0 \<longrightarrow>
               (\<exists>w'. setStatus parse w a ''vitality'' value = Some (Inr w')
                  \<and> getStatus w' b ''vitality'' = Some (Inr (PyNum 0))
                  \<and> getStatus w' b ''alive'' = Some (Inr (PyBool False))
                  \<and> getStatus w' b ''death'' = Some (Inr (PyStr ''death01''))))"
    using setStatus_shared_vitality [OF r a b] by (intro allI impI)
  have p5: "\<forall>v lifespan. py_float parse value = Inr v
              \<and> Organism_status w ''lifespan'' = Some lifespan \<longrightarrow>
            (float_less v lifespan \<longrightarrow>
               (\<exists>w'. setStatus parse w a ''age'' value = Some (Inr w')
                  \<and> getStatus w' b ''age'' = Some (Inr (PyNum v))))
          \<and> (\<not> float_less v lifespan \<longrightarrow>
               (\<exists>w'. setStatus parse w a ''age'' value = Some (Inr w')
                  \<and> getStatus w' b ''age'' = Some (Inr lifespan)
                  \<and> getStatus w' b ''alive'' = Some (Inr (PyBool False))
                  \<and> getStatus w' b ''death'' = Some (Inr (PyStr ''death02''))))"
  proof (intro allI impI)
    fix v lifespan
    assume "py_float parse value = Inr v \<and> Organism_status w ''lifespan'' = Some lifespan"
    then have "py_float parse value = Inr v" and "Organism_status w ''lifespan'' = Some lifespan"
      by simp_all
    then show "(float_less v lifespan \<longrightarrow>
               (\<exists>w'. setStatus parse w a ''age'' value = Some (Inr w')
                  \<and> getStatus w' b ''age'' = Some (Inr (PyNum v))))
          \<and> (\<not> float_less v lifespan \<longrightarrow>
               (\<exists>w'. setStatus parse w a ''age'' value = Some (Inr w')
                  \<and> getStatus w' b ''age'' = Some (Inr lifespan)
                  \<and> getStatus w' b ''alive'' = Some (Inr (PyBool False))
                  \<and> getStatus w' b ''death'' = Some (Inr (PyStr ''death02''))))"
      by (rule setStatus_shared_age [OF r a b])
  qed
  have q1: "\<forall>st. setStatus_dict parse (Organism_status ?w1) variable value = Inr st \<longrightarrow>
                 (\<exists>w2. setStatus parse ?w1 a variable value = Some (Inr w2)
                     \<and> status_of w2 ?c = Some st)"
    using setStatus_shared [OF r1 a1 c1] by blast
  have q2: "variable \<noteq> ''vitality'' \<and> variable \<noteq> ''age'' \<longrightarrow>
                 (\<exists>w2. setStatus parse ?w1 a variable value = Some (Inr w2)
                     \<and> getStatus w2 ?c variable = Some (Inr value))"
    using setStatus_shared_other [OF r1 a1 c1, of variable "value"] by blast
  from c ne cs sc q1 q2
  have p6: "\<exists>w1 c. clone w a = Some (w1, c) \<and> c \<noteq> a \<and> c = length (instances w)
            \<and> Organism_status w1 = Organism_status w
            \<and> status_of w1 c = Some (Organism_status w1)
            \<and> (\<forall>st. setStatus_dict parse (Organism_status w1) variable value = Inr st \<longrightarrow>
                 (\<exists>w2. setStatus parse w1 a variable value = Some (Inr w2)
                     \<and> status_of w2 c = Some st))
            \<and> (variable \<noteq> ''vitality'' \<and> variable \<noteq> ''age'' \<longrightarrow>
                 (\<exists>w2. setStatus parse w1 a variable value = Some (Inr w2)
                     \<and> getStatus w2 c variable = Some (Inr value)))"
    by (intro exI [of _ ?w1] exI [of _ ?c] conjI) (rule refl | assumption)+
  from p1 p2 p3 p4 p5 p6 show ?thesis
    by (intro conjI)
qed


lemma reachable_two_organisms: "reachable parse two_organisms"
  unfolding two_organisms_def by (intro reachable.init reachable.start)

lemma length_two_organisms: "length (instances two_organisms) = 2"
  by (simp add: two_organisms_def Organism_init_def initial_world_def)

lemma status_two_organisms: "Organism_status two_organisms = default_status"
  by (simp add: two_organisms_def Organism_init_def initial_world_def)

theorem status_shared_by_all_organisms_witness:
  "(\<exists>w'. setStatus (\<lambda>s. None) two_organisms 0 ''fitness'' (PyNum 42) = Some (Inr w')
       \<and> getStatus w' 1 ''fitness'' = Some (Inr (PyNum 42)))
   \<and> (\<exists>w'. setStatus (\<lambda>s. None) two_organisms 0 ''fitness'' (PyNum 42) = Some (Inr w')
       \<and> status_of w' 0 = Some (default_status(''fitness'' \<mapsto> PyNum 42))
       \<and> status_of w' 1 = Some (default_status(''fitness'' \<mapsto> PyNum 42)))
   \<and> (\<exists>w'. setStatus (\<lambda>s. None) two_organisms 0 ''alive'' (PyBool False) = Some (Inr w')
       \<and> getStatus w' 1 ''death'' = Some (Inr (PyStr ''death03'')))
   \<and> (\<exists>w'. setStatus (\<lambda>s. None) two_organisms 0 ''vitality'' (PyNum 150) = Some (Inr w')
       \<and> getStatus w' 1 ''vitality'' = Some (Inr (PyNum 100)))
   \<and> (\<exists>w'. setStatus (\<lambda>s. None) two_organisms 0 ''vitality'' (PyNum 50) = Some (Inr w')
       \<and> getStatus w' 1 ''vitality'' = Some (Inr (PyNum 50)))
   \<and> (\<exists>w'. setStatus (\<lambda>s. None) two_organisms 0 ''vitality'' (PyNum (- 3)) = Some (Inr w')
       \<and> getStatus w' 1 ''vitality'' = Some (Inr (PyNum 0))
       \<and> getStatus w' 1 ''alive'' = Some (Inr (PyBool False))
       \<and> getStatus w' 1 ''death'' = Some (Inr (PyStr ''death01'')))
   \<and> (\<exists>w'. setStatus (\<lambda>s. None) two_organisms 0 ''age'' (PyNum 3) = Some (Inr w')
       \<and> getStatus w' 1 ''age'' = Some (Inr (PyNum 3)))
   \<and> (\<exists>w'. setStatus (\<lambda>s. None) two_organisms 0 ''age'' (PyNum 120) = Some (Inr w')
       \<and> getStatus w' 1 ''age'' = Some (Inr (PyNum 100))
       \<and> getStatus w' 1 ''alive'' = Some (Inr (PyBool False))
       \<and> getStatus w' 1 ''death'' = Some (Inr (PyStr ''death02'')))
   \<and> (\<exists>w1 c. clone two_organisms 0 = Some (w1, c) \<and> c \<noteq> 0 \<and> c = 2
       \<and> Organism_status w1 = Organism_status two_organisms
       \<and> status_of w1 c = Some (Organism_status w1)
       \<and> (\<exists>w2. setStatus (\<lambda>s. None) w1 0 ''fitness'' (PyNum 42) = Some (Inr w2)
             \<and> getStatus w2 c ''fitness'' = Some (Inr (PyNum 42))))"
proof -
  have a: "0 < length (instances two_organisms)" and b: "1 < length (instances two_organisms)"
    by (simp_all add: length_two_organisms)
  have ne: "(0::nat) \<noteq> 1" by simp
  note t = status_shared_by_all_organisms [OF reachable_two_organisms a b ne, of "\<lambda>s. None"]
  note t1 = t [THEN conjunct1, rule_format]
    and t2 = t [THEN conjunct2, THEN conjunct1, rule_format]
    and t3 = t [THEN conjunct2, THEN conjunct2, THEN conjunct1, rule_format]
    and t4 = t [THEN conjunct2, THEN conjunct2, THEN conjunct2, THEN conjunct1, rule_format]
    and t5 = t [THEN conjunct2, THEN conjunct2, THEN conjunct2, THEN conjunct2, THEN conjunct1,
                rule_format]
    and t6 = t [THEN conjunct2, THEN conjunct2, THEN conjunct2, THEN conjunct2, THEN conjunct2]
  have l: "Organism_status two_organisms ''lifespan'' = Some (PyNum 100)"
    by (simp add: status_two_organisms default_status_def)
  have d: "setStatus_dict (\<lambda>s. None) (Organism_status two_organisms) ''fitness'' (PyNum 42)
      = Inr (default_status(''fitness'' \<mapsto> PyNum 42))"
    by (simp add: setStatus_dict_def status_two_organisms)
  have v: "''fitness'' \<noteq> ''vitality'' \<and> ''fitness'' \<noteq> ''age''" by simp
  have c1: "\<exists>w'. setStatus (\<lambda>s. None) two_organisms 0 ''fitness'' (PyNum 42) = Some (Inr w')
       \<and> getStatus w' 1 ''fitness'' = Some (Inr (PyNum 42))"
    using v by (rule t2)
  have c2: "\<exists>w'. setStatus (\<lambda>s. None) two_organisms 0 ''fitness'' (PyNum 42) = Some (Inr w')
       \<and> status_of w' 0 = Some (default_status(''fitness'' \<mapsto> PyNum 42))
       \<and> status_of w' 1 = Some (default_status(''fitness'' \<mapsto> PyNum 42))"
    using d by (rule t1)
  have "py_eq_bool (PyBool False) False" by simp
  then have c3: "\<exists>w'. setStatus (\<lambda>s. None) two_organisms 0 ''alive'' (PyBool False) = Some (Inr w')
       \<and> getStatus w' 1 ''death'' = Some (Inr (PyStr ''death03''))"
    by (rule t3)
  have f150: "py_float (\<lambda>s. None) (PyNum 150) = Inr 150"
    by (simp add: double_round_numeral)
  have g150: "vitality_limit < 150"
    unfolding vitality_limit_value by simp
  from t4 [OF f150, THEN conjunct1] g150
  have c4: "\<exists>w'. setStatus (\<lambda>s. None) two_organisms 0 ''vitality'' (PyNum 150) = Some (Inr w')
       \<and> getStatus w' 1 ''vitality'' = Some (Inr (PyNum 100))"
    by (rule mp)
  have f50: "py_float (\<lambda>s. None) (PyNum 50) = Inr 50"
    by (simp add: double_round_numeral)
  have g50: "(0 :: real) < 50 \<and> 50 < vitality_limit"
    unfolding vitality_limit_value by simp
  from t4 [OF f50, THEN conjunct2, THEN conjunct1] g50
  have c5: "\<exists>w'. setStatus (\<lambda>s. None) two_organisms 0 ''vitality'' (PyNum 50) = Some (Inr w')
       \<and> getStatus w' 1 ''vitality'' = Some (Inr (PyNum 50))"
    by (rule mp)
  have "double_round (- 3) = - 3"
    by (subst double_round_eval [where e = 1]) (simp_all add: pow2_def round_half_even_def)
  then have fm3: "py_float (\<lambda>s. None) (PyNum (- 3)) = Inr (- 3)" and gm3: "(- 3 :: real) \<le> 0"
    by simp_all
  from t4 [OF fm3, THEN conjunct2, THEN conjunct2] gm3
  have c6: "\<exists>w'. setStatus (\<lambda>s. None) two_organisms 0 ''vitality'' (PyNum (- 3)) = Some (Inr w')
       \<and> getStatus w' 1 ''vitality'' = Some (Inr (PyNum 0))
       \<and> getStatus w' 1 ''alive'' = Some (Inr (PyBool False))
       \<and> getStatus w' 1 ''death'' = Some (Inr (PyStr ''death01''))"
    by (rule mp)
  have f3: "py_float (\<lambda>s. None) (PyNum 3) = Inr 3 \<and> Organism_status two_organisms ''lifespan'' = Some (PyNum 100)"
    and g3: "float_less 3 (PyNum 100)"
    using l by (simp_all add: double_round_numeral)
  from t5 [OF f3, THEN conjunct1] g3
  have c7: "\<exists>w'. setStatus (\<lambda>s. None) two_organisms 0 ''age'' (PyNum 3) = Some (Inr w')
       \<and> getStatus w' 1 ''age'' = Some (Inr (PyNum 3))"
    by (rule mp)
  have f120: "py_float (\<lambda>s. None) (PyNum 120) = Inr 120 \<and> Organism_status two_organisms ''lifespan'' = Some (PyNum 100)"
    and g120: "\<not> float_less 120 (PyNum 100)"
    using l by (simp_all add: double_round_numeral)
  from t5 [OF f120, THEN conjunct2] g120
  have c8: "\<exists>w'. setStatus (\<lambda>s. None) two_organisms 0 ''age'' (PyNum 120) = Some (Inr w')
       \<and> getStatus w' 1 ''age'' = Some (Inr (PyNum 100))
       \<and> getStatus w' 1 ''alive'' = Some (Inr (PyBool False))
       \<and> getStatus w' 1 ''death'' = Some (Inr (PyStr ''death02''))"
    by (rule mp)
  from t6 [of "''fitness''" "PyNum 42"]
  obtain w1 c where w1: "clone two_organisms 0 = Some (w1, c)" "c \<noteq> 0"
    "c = length (instances two_organisms)"
    "Organism_status w1 = Organism_status two_organisms"
    "status_of w1 c = Some (Organism_status w1)"
    "''fitness'' \<noteq> ''vitality'' \<and> ''fitness'' \<noteq> ''age'' \<longrightarrow>
       (\<exists>w2. setStatus (\<lambda>s. None) w1 0 ''fitness'' (PyNum 42) = Some (Inr w2)
             \<and> getStatus w2 c ''fitness'' = Some (Inr (PyNum 42)))"
    by blast
  from w1(6) v have "\<exists>w2. setStatus (\<lambda>s. None) w1 0 ''fitness'' (PyNum 42) = Some (Inr w2)
             \<and> getStatus w2 c ''fitness'' = Some (Inr (PyNum 42))"
    by (rule mp)
  with w1(1-5) have c9: "\<exists>w1 c. clone two_organisms 0 = Some (w1, c) \<and> c \<noteq> 0 \<and> c = 2
       \<and> Organism_status w1 = Organism_status two_organisms
       \<and> status_of w1 c = Some (Organism_status w1)
       \<and> (\<exists>w2. setStatus (\<lambda>s. None) w1 0 ''fitness'' (PyNum 42) = Some (Inr w2)
             \<and> getStatus w2 c ''fitness'' = Some (Inr (PyNum 42)))"
    unfolding length_two_organisms by blast
  from c1 c2 c3 c4 c5 c6 c7 c8 c9 show ?thesis
    by (intro conjI)
qed


section \<open>Death and the operations of the core\<close>












section \<open>Selection before mating\<close>

lemma map_err_ok: "(\<And>x. x \<in> set xs \<Longrightarrow> f x = Inr (g x)) \<Longrightarrow> map_err f xs = Inr (map g xs)"
  by (induction xs) simp_all

lemma pick_ok: "xs \<noteq> [] \<Longrightarrow> pick rnd xs k = Inr (xs ! (rnd k mod length xs))"
proof -
  assume "xs \<noteq> []"
  then have "0 < length xs" by simp
  then have "nat (int (rnd k) mod int (length xs)) = rnd k mod length xs"
    by (simp add: nat_mod_distrib flip: zmod_int)
  with \<open>0 < length xs\<close> show ?thesis
    by (simp add: pick_def randint_def randrange_def)
qed

lemma sample_ok:
  "xs \<noteq> [] \<Longrightarrow> map_err (pick rnd xs) [0..<n] = Inr (map (\<lambda>k. xs ! (rnd k mod length xs)) [0..<n])"
  by (rule map_err_ok) (rule pick_ok)

text \<open>
  Whatever is drawn, the new collection is the retained organisms when they are more than
  21, and the prior collection otherwise.
\<close>

lemma prepopulation_control_eq:
  assumes "map_err fit agents = Inr sfitness" and "agents \<noteq> []"
  shows "prepopulation_control fit agents rnd =
     Inr (let temp = map fst (filter (\<lambda>(a, f). f > double_round (float_sum sfitness
                                           / double_round (real (length sfitness))))
                                (zip agents sfitness))
          in if length temp > 21 then temp else agents)"
proof -
  have "length sfitness = length agents"
    using assms(1)
  proof (induction agents arbitrary: sfitness)
    case Nil
    then show ?case by auto
  next
    case (Cons a agents)
    then show ?case by (auto split: sum.splits)
  qed
  with assms(2) have ne: "length sfitness \<noteq> 0" by simp
  let ?temp = "map fst (filter (\<lambda>(a, f). f > double_round (float_sum sfitness
                                           / double_round (real (length sfitness))))
                                (zip agents sfitness))"
  show ?thesis
  proof (cases "length ?temp > 2001")
    case True
    then have "?temp \<noteq> []" by auto
    from sample_ok [OF this, of rnd 2000] True assms(1) ne show ?thesis
      by (simp add: prepopulation_control_def Let_def)
  next
    case False
    with assms(1) ne show ?thesis
      by (simp add: prepopulation_control_def Let_def)
  qed
qed

lemma fitness_one: "fitness (organism_of [1]) = Inr 1"
  and fitness_zero: "fitness (organism_of [0]) = Inr 0"
  by (simp_all add: fitness_def organism_of_def)

lemma sfitness_two_groups:
  "map_err fitness (replicate m (organism_of [1]) @ replicate n (organism_of [0]))
     = Inr (replicate m 1 @ replicate n 0)"
proof -
  have ne: "organism_of [0] \<noteq> organism_of [1]"
    by (simp add: organism_of_def)
  have "map_err fitness (replicate m (organism_of [1]) @ replicate n (organism_of [0]))
     = Inr (map (\<lambda>x. if x = organism_of [1] then 1 else 0)
             (replicate m (organism_of [1]) @ replicate n (organism_of [0])))"
    using ne by (intro map_err_ok) (auto simp: fitness_one fitness_zero)
  also from ne have "map (\<lambda>x. if x = organism_of [1] then 1 else (0::real))
             (replicate m (organism_of [1]) @ replicate n (organism_of [0]))
        = replicate m 1 @ replicate n 0"
    by simp
  finally show ?thesis .
qed

text \<open>The float sum of \<open>m\<close> ones and \<open>n\<close> zeros is \<open>m\<close>: every partial sum is a double.\<close>

lemma foldl_ones:
  "j + m < 2 ^ 53 \<Longrightarrow>
   foldl (\<lambda>s f. double_round (s + f)) (real j) (replicate m 1) = real (j + m)"
proof (induction m arbitrary: j)
  case 0
  then show ?case by simp
next
  case (Suc m)
  from Suc.prems have "Suc j < 2 ^ 53" by simp
  then have "double_round (real j + 1) = real (Suc j)"
    using double_round_of_nat [of "Suc j"] by (simp add: add.commute)
  moreover from Suc.prems have "Suc j + m < 2 ^ 53" by simp
  ultimately show ?case
    using Suc.IH [of "Suc j"] by simp
qed

lemma foldl_zeros:
  "j < 2 ^ 53 \<Longrightarrow> foldl (\<lambda>s f. double_round (s + f)) (real j) (replicate n 0) = real j"
  by (induction n) (simp_all add: double_round_of_nat)

lemma float_sum_two_groups:
  assumes "m < 2 ^ 53"
  shows "float_sum (replicate m 1 @ replicate n 0) = real m"
  using assms foldl_ones [of 0 m] by (simp add: float_sum_def foldl_zeros)

lemma threshold_two_groups:
  assumes "0 < n" and "2 * n < 2 ^ 53"
  shows "double_round (float_sum (replicate n 1 @ replicate n 0)
      / double_round (real (length (replicate n (1::real) @ replicate n 0)))) = 1 / 2"
proof -
  from assms(2) have n53: "n < 2 ^ 53" by simp
  have l: "length (replicate n (1::real) @ replicate n 0) = 2 * n" by simp
  have d: "double_round (real (2 * n)) = real (2 * n)"
    using assms(2) by (rule double_round_of_nat)
  have q: "real n / real (2 * n) = 1 / 2"
    using assms(1) by simp
  show ?thesis
    unfolding float_sum_two_groups [OF n53] l d q by (rule double_round_half)
qed

lemma two_groups:
  assumes "0 < n" and "2 * n < 2 ^ 53"
  shows "prepopulation_control fitness (replicate n (organism_of [1]) @ replicate n (organism_of [0])) rnd
    = Inr (if n > 21 then replicate n (organism_of [1])
           else replicate n (organism_of [1]) @ replicate n (organism_of [0]))"
proof -
  let ?agents = "replicate n (organism_of [1]) @ replicate n (organism_of [0])"
  have ne: "?agents \<noteq> []" using assms by simp
  have z: "zip ?agents (replicate n 1 @ replicate n (0::real))
     = replicate n (organism_of [1], 1) @ replicate n (organism_of [0], 0)"
    by (simp add: zip_replicate)
  show ?thesis
    unfolding prepopulation_control_eq [OF sfitness_two_groups ne]
      threshold_two_groups [OF assms] z
    by (simp add: Let_def)
qed

text \<open>
  C1 at two failing inputs, whatever the random draws. With 2002 organisms of fitness 1
  and 2002 of fitness 0 the mean is 0.5 and 2002 organisms are retained: the new
  collection is all 2002 of them, not 2000 drawn at random (the sample of 2000 is
  assigned and then overwritten by the second \<open>if\<close>). With 21 and 21, the 21 retained
  organisms are more than 20, yet the prior collection of 42 is kept: the code tests
  \<open>len(temp) > 21\<close>.
\<close>

theorem prepopulation_control_thresholds:
  "prepopulation_control fitness
      (replicate 2002 (organism_of [1]) @ replicate 2002 (organism_of [0])) rnd
     = Inr (replicate 2002 (organism_of [1]))
   \<and> prepopulation_control fitness
      (replicate 21 (organism_of [1]) @ replicate 21 (organism_of [0])) rnd
     = Inr (replicate 21 (organism_of [1]) @ replicate 21 (organism_of [0]))"
proof -
  have a: "(0::nat) < 2002" "2 * 2002 < (2::nat) ^ 53"
    and b: "(0::nat) < 21" "2 * 21 < (2::nat) ^ 53"
    by simp_all
  show ?thesis
    unfolding two_groups [OF a] two_groups [OF b] by simp
qed


section \<open>Freezing a sample\<close>










end
